theory Spec2Isabelle
  imports Complex_Main "HOL-Library.Monad_Syntax" "HOL-Library.Code_Target_Nat"
begin

section \<open>JavaScript values\<close>

text \<open>
  The dashboard (\<^verbatim>\<open>shared-data.js\<close>) reads JSON documents from three currency services and
  one weather service and reshapes them for display. The values it handles are the values
  \<^verbatim>\<open>JSON.parse\<close> returns, together with \<^verbatim>\<open>undefined\<close> for a property that is not there.

  Numbers: a JavaScript number is an IEEE double. Here a finite number is a rational, and
  \<^verbatim>\<open>NaN\<close>, \<^verbatim>\<open>Infinity\<close> and \<^verbatim>\<open>-Infinity\<close> are values of their own. A number in a body or a
  literal of the program is kept at the value its text denotes. Where the program computes
  with numbers (the operators \<^verbatim>\<open>*\<close>, \<^verbatim>\<open>/\<close> and \<^verbatim>\<open>+\<close>, \<^verbatim>\<open>Math.round\<close>, \<^verbatim>\<open>toFixed\<close>), the operands are
  the doubles nearest to them and the result is rounded to a double, as IEEE arithmetic
  does (section Doubles below). Comparisons are made at the values themselves. The sign of
  zero is outside the model.
\<close>

datatype jsnum = Fin rat | NaN | PInf | NInf

datatype jsval =
    Undefined
  | Null
  | Bool bool
  | Num jsnum
  | Str string
  | Arr "jsval list"
  | Obj "(string \<times> jsval) list"

text \<open>The relational operators on numbers: every comparison with \<^verbatim>\<open>NaN\<close> is false.\<close>

fun num_lt :: "jsnum \<Rightarrow> jsnum \<Rightarrow> bool" where
  "num_lt NaN _ = False"
| "num_lt _ NaN = False"
| "num_lt (Fin a) (Fin b) = (a < b)"
| "num_lt (Fin a) PInf = True"
| "num_lt (Fin a) NInf = False"
| "num_lt PInf _ = False"
| "num_lt NInf NInf = False"
| "num_lt NInf _ = True"

definition num_gt :: "jsnum \<Rightarrow> jsnum \<Rightarrow> bool" where
  "num_gt a b = num_lt b a"

text \<open>\<^verbatim>\<open>a <= b\<close> is false when an operand is \<^verbatim>\<open>NaN\<close>, and \<^verbatim>\<open>!(b < a)\<close> otherwise.\<close>

definition num_le :: "jsnum \<Rightarrow> jsnum \<Rightarrow> bool" where
  "num_le a b = (a \<noteq> NaN \<and> b \<noteq> NaN \<and> \<not> num_lt b a)"

text \<open>Sign of a number that is not \<^verbatim>\<open>NaN\<close>; zero counts as positive.\<close>

fun num_nonneg :: "jsnum \<Rightarrow> bool" where
  "num_nonneg (Fin a) = (0 \<le> a)"
| "num_nonneg PInf = True"
| "num_nonneg NInf = False"
| "num_nonneg NaN = True"

definition num_neg :: "jsnum \<Rightarrow> jsnum" where
  "num_neg a = (case a of Fin q \<Rightarrow> Fin (- q) | NaN \<Rightarrow> NaN | PInf \<Rightarrow> NInf | NInf \<Rightarrow> PInf)"

definition signed_inf :: "bool \<Rightarrow> jsnum" where
  "signed_inf pos = (if pos then PInf else NInf)"

fun num_add :: "jsnum \<Rightarrow> jsnum \<Rightarrow> jsnum" where
  "num_add NaN _ = NaN"
| "num_add _ NaN = NaN"
| "num_add (Fin a) (Fin b) = Fin (a + b)"
| "num_add PInf NInf = NaN"
| "num_add NInf PInf = NaN"
| "num_add PInf _ = PInf"
| "num_add NInf _ = NInf"
| "num_add (Fin a) b = b"

fun num_mul :: "jsnum \<Rightarrow> jsnum \<Rightarrow> jsnum" where
  "num_mul NaN _ = NaN"
| "num_mul _ NaN = NaN"
| "num_mul (Fin a) (Fin b) = Fin (a * b)"
| "num_mul (Fin a) b = (if a = 0 then NaN else signed_inf (0 < a \<longleftrightarrow> num_nonneg b))"
| "num_mul a (Fin b) = (if b = 0 then NaN else signed_inf (0 < b \<longleftrightarrow> num_nonneg a))"
| "num_mul a b = signed_inf (num_nonneg a \<longleftrightarrow> num_nonneg b)"

fun num_div :: "jsnum \<Rightarrow> jsnum \<Rightarrow> jsnum" where
  "num_div NaN _ = NaN"
| "num_div _ NaN = NaN"
| "num_div (Fin a) (Fin b) =
     (if b = 0 then (if a = 0 then NaN else signed_inf (0 < a)) else Fin (a / b))"
| "num_div (Fin a) b = Fin 0"
| "num_div a (Fin b) = signed_inf (0 \<le> b \<longleftrightarrow> num_nonneg a)"
| "num_div a b = NaN"

subsection \<open>Doubles\<close>

text \<open>
  The doubles are 0 and the numbers \<open>\<plusminus> m * 2\<^sup>e\<^sup>-\<^sup>5\<^sup>2\<close> with \<open>m < 2\<^sup>5\<^sup>3\<close> and
  \<open>-1022 \<le> e \<le> 1023\<close>. A real number is rounded to the nearest double, a tie going to the
  even \<open>m\<close>; what would round to \<open>2\<^sup>1\<^sup>0\<^sup>2\<^sup>4\<close> or beyond (an exponent above 1023, or
  \<open>m = 2\<^sup>5\<^sup>3\<close> at the exponent 1023) is an infinity. The rounding is computed on the
  numerator and the denominator of the number.
\<close>

definition pow2 :: "int \<Rightarrow> rat" where
  "pow2 k = (if 0 \<le> k then of_int (2 ^ nat k) else 1 / of_int (2 ^ nat (- k)))"

text \<open>The integer nearest to \<open>n / d\<close> for \<open>d > 0\<close>, a tie going to the even one.\<close>

definition round_even_div :: "int \<Rightarrow> int \<Rightarrow> int" where
  "round_even_div n d =
     (let f = n div d; r = n mod d
      in if 2 * r < d then f else if d < 2 * r then f + 1 else if even f then f else f + 1)"

function log2_floor :: "nat \<Rightarrow> nat" where
  "log2_floor n = (if n < 2 then 0 else 1 + log2_floor (n div 2))"
  by pat_completeness auto
termination
  by (relation "measure id") auto

declare log2_floor.simps [simp del]

text \<open>
  The exponent \<open>e\<close> with \<open>2\<^sup>e \<le> p / q < 2\<^sup>e\<^sup>+\<^sup>1\<close>, for positive \<open>p\<close> and \<open>q\<close>: the difference \<open>k\<close>
  of their bit lengths if \<open>2\<^sup>k \<le> p / q\<close>, and \<open>k - 1\<close> otherwise.
\<close>

definition binade :: "int \<Rightarrow> int \<Rightarrow> int" where
  "binade p q =
     (let k = int (log2_floor (nat p)) - int (log2_floor (nat q))
      in if (if 0 \<le> k then q * 2 ^ nat k \<le> p else q \<le> p * 2 ^ nat (- k)) then k else k - 1)"

definition to_double :: "rat \<Rightarrow> jsnum" where
  "to_double x =
     (if x = 0 then Fin 0
      else
        let p = \<bar>fst (quotient_of x)\<bar>;
            q = snd (quotient_of x);
            e = max (binade p q) (- 1022);
            m = (if 52 \<le> e then round_even_div p (q * 2 ^ nat (e - 52))
                 else round_even_div (p * 2 ^ nat (52 - e)) q)
        in if 1023 < e \<or> (e = 1023 \<and> 2 ^ 53 \<le> m) then signed_inf (0 < x)
           else Fin (if x < 0 then - (of_int m * pow2 (e - 52)) else of_int m * pow2 (e - 52)))"

text \<open>The double that a number denotes.\<close>

definition dbl :: "jsnum \<Rightarrow> jsnum" where
  "dbl a = (case a of Fin q \<Rightarrow> to_double q | _ \<Rightarrow> a)"

text \<open>The operators \<^verbatim>\<open>*\<close>, \<^verbatim>\<open>/\<close> and \<^verbatim>\<open>+\<close> on doubles: the exact result, rounded.\<close>

definition dbl_mul :: "jsnum \<Rightarrow> jsnum \<Rightarrow> jsnum" where
  "dbl_mul a b = dbl (num_mul a b)"

definition dbl_div :: "jsnum \<Rightarrow> jsnum \<Rightarrow> jsnum" where
  "dbl_div a b = dbl (num_div a b)"

definition dbl_add :: "jsnum \<Rightarrow> jsnum \<Rightarrow> jsnum" where
  "dbl_add a b = dbl (num_add a b)"

text \<open>
  \<^verbatim>\<open>Math.round\<close> of a double: the nearest integer, a tie going to the larger one; \<^verbatim>\<open>NaN\<close> and
  the infinities are returned as they are. The nearest integer of a double is a double.
\<close>

definition round_half_up :: "rat \<Rightarrow> int" where
  "round_half_up q = \<lfloor>q + 1 / 2\<rfloor>"

definition Math_round :: "jsnum \<Rightarrow> jsnum" where
  "Math_round a = (case a of Fin q \<Rightarrow> Fin (of_int (round_half_up q)) | _ \<Rightarrow> a)"

subsection \<open>Reading numbers from text\<close>

text \<open>
  Strings are byte strings here; the white space that the numeric conversions skip is the
  ASCII part of JavaScript's white space and line terminators.
\<close>

definition is_ws :: "char \<Rightarrow> bool" where
  "is_ws c = (c \<in> set [CHR 0x09, CHR 0x0A, CHR 0x0B, CHR 0x0C, CHR 0x0D, CHR 0x20])"

definition is_digit :: "char \<Rightarrow> bool" where
  "is_digit c = (c \<in> set ''0123456789'')"

definition digit_val :: "char \<Rightarrow> nat" where
  "digit_val c = of_char c - 48"

definition digits_val :: "string \<Rightarrow> nat" where
  "digits_val ds = foldl (\<lambda>a c. 10 * a + digit_val c) 0 ds"

definition scale10 :: "nat \<Rightarrow> int \<Rightarrow> rat" where
  "scale10 m k = (if 0 \<le> k then of_nat m * 10 ^ nat k else of_nat m / 10 ^ nat (- k))"

text \<open>An \<^verbatim>\<open>ExponentPart\<close> at the head of the text: its value and what follows it.\<close>

definition scan_exponent :: "string \<Rightarrow> (int \<times> string) option" where
  "scan_exponent s =
     (case s of
        [] \<Rightarrow> None
      | c # r \<Rightarrow>
          if c = CHR ''e'' \<or> c = CHR ''E'' then
            (let neg = (take 1 r = ''-'');
                 r1 = (if take 1 r = ''-'' \<or> take 1 r = ''+'' then drop 1 r else r);
                 es = takeWhile is_digit r1
             in if es = [] then None
                else Some ((if neg then - int (digits_val es) else int (digits_val es)),
                           dropWhile is_digit r1))
          else None)"

text \<open>
  The longest prefix that is a \<^verbatim>\<open>StrUnsignedDecimalLiteral\<close>
  (\<^verbatim>\<open>Infinity\<close>, \<^verbatim>\<open>12\<close>, \<^verbatim>\<open>12.\<close>, \<^verbatim>\<open>12.5\<close>, \<^verbatim>\<open>.5\<close>, each but the first with an optional
  exponent): its value and the rest of the text.
\<close>

definition scan_decimal :: "string \<Rightarrow> (jsnum \<times> string) option" where
  "scan_decimal s =
     (if take 8 s = ''Infinity'' then Some (PInf, drop 8 s)
      else
        let ds = takeWhile is_digit s;
            r1 = dropWhile is_digit s;
            dot = (take 1 r1 = ''.'');
            fs = (if dot then takeWhile is_digit (drop 1 r1) else []);
            r2 = (if dot then dropWhile is_digit (drop 1 r1) else r1)
        in if ds = [] \<and> fs = [] then None
           else
             (case scan_exponent r2 of
                None \<Rightarrow> Some (Fin (scale10 (digits_val (ds @ fs)) (- int (length fs))), r2)
              | Some (e, r3) \<Rightarrow>
                  Some (Fin (scale10 (digits_val (ds @ fs)) (e - int (length fs))), r3)))"

text \<open>A sign, then an unsigned decimal literal.\<close>

definition scan_signed :: "string \<Rightarrow> (jsnum \<times> string) option" where
  "scan_signed s =
     (if take 1 s = ''-'' then map_option (\<lambda>(v, r). (num_neg v, r)) (scan_decimal (drop 1 s))
      else if take 1 s = ''+'' then scan_decimal (drop 1 s)
      else scan_decimal s)"

text \<open>\<^verbatim>\<open>parseFloat\<close>: leading white space is skipped, the longest numeric prefix is read.\<close>

definition parseFloat :: "string \<Rightarrow> jsnum" where
  "parseFloat s = (case scan_signed (dropWhile is_ws s) of None \<Rightarrow> NaN | Some (v, _) \<Rightarrow> v)"

text \<open>
  \<^verbatim>\<open>StringToNumber\<close>, the conversion of a string operand of an arithmetic or relational
  operator: white space is trimmed at both ends, the empty text is 0, and the whole of the
  rest must be a numeric literal (decimal, or an unsigned \<^verbatim>\<open>0x\<close>, \<^verbatim>\<open>0o\<close>, \<^verbatim>\<open>0b\<close> integer).
\<close>

definition radix_digit :: "nat \<Rightarrow> char \<Rightarrow> nat option" where
  "radix_digit b c =
     (let n = of_char c;
          v = (if 48 \<le> n \<and> n \<le> 57 then Some (n - 48)
               else if 97 \<le> n \<and> n \<le> 102 then Some (n - 87)
               else if 65 \<le> n \<and> n \<le> 70 then Some (n - 55)
               else None)
      in case v of None \<Rightarrow> None | Some d \<Rightarrow> if d < b then Some d else None)"

fun radix_val :: "nat \<Rightarrow> nat \<Rightarrow> string \<Rightarrow> nat option" where
  "radix_val b acc [] = Some acc"
| "radix_val b acc (c # cs) =
     (case radix_digit b c of None \<Rightarrow> None | Some d \<Rightarrow> radix_val b (b * acc + d) cs)"

definition radix_prefix :: "string \<Rightarrow> nat option" where
  "radix_prefix s =
     (if take 2 s = ''0x'' \<or> take 2 s = ''0X'' then Some 16
      else if take 2 s = ''0o'' \<or> take 2 s = ''0O'' then Some 8
      else if take 2 s = ''0b'' \<or> take 2 s = ''0B'' then Some 2
      else None)"

definition StringToNumber :: "string \<Rightarrow> jsnum" where
  "StringToNumber s =
     (let t = rev (dropWhile is_ws (rev (dropWhile is_ws s)))
      in if t = [] then Fin 0
         else
           (case radix_prefix t of
              Some b \<Rightarrow>
                (if drop 2 t = [] then NaN
                 else case radix_val b 0 (drop 2 t) of None \<Rightarrow> NaN | Some n \<Rightarrow> Fin (of_nat n))
            | None \<Rightarrow>
                (case scan_signed t of
                   Some (v, []) \<Rightarrow> v
                 | _ \<Rightarrow> NaN)))"

subsection \<open>Coercions\<close>

text \<open>
  \<^verbatim>\<open>ToPrimitive\<close> of an object that came from JSON: a plain object turns into the text
  \<^verbatim>\<open>[object Object]\<close>, unless it has a property of its own named \<^verbatim>\<open>toString\<close> (a JSON value
  is never callable, so no conversion method is left and a TypeError is thrown); an array
  turns into the texts of its elements joined by commas, and throws when one of them does.
\<close>

fun toString_throws :: "jsval \<Rightarrow> bool" where
  "toString_throws (Obj kvs) = (''toString'' \<in> set (map fst kvs))"
| "toString_throws (Arr xs) = list_ex toString_throws xs"
| "toString_throws _ = False"

text \<open>
  \<^verbatim>\<open>ToNumber\<close>; \<open>None\<close> is the TypeError of \<^verbatim>\<open>ToPrimitive\<close>. An array of one element has the
  text of that element (empty for \<^verbatim>\<open>null\<close> and \<^verbatim>\<open>undefined\<close>; a number prints to a text that
  reads back as the same number); an array of two or more has a comma in its text, which
  no numeric literal has.
\<close>

fun ToNumber_total :: "jsval \<Rightarrow> jsnum" where
  "ToNumber_total Undefined = NaN"
| "ToNumber_total Null = Fin 0"
| "ToNumber_total (Bool b) = (if b then Fin 1 else Fin 0)"
| "ToNumber_total (Num n) = n"
| "ToNumber_total (Str s) = StringToNumber s"
| "ToNumber_total (Obj kvs) = NaN"
| "ToNumber_total (Arr []) = Fin 0"
| "ToNumber_total (Arr [Undefined]) = Fin 0"
| "ToNumber_total (Arr [Null]) = Fin 0"
| "ToNumber_total (Arr [Bool b]) = NaN"
| "ToNumber_total (Arr [x]) = ToNumber_total x"
| "ToNumber_total (Arr (x # y # zs)) = NaN"

definition ToNumber :: "jsval \<Rightarrow> jsnum option" where
  "ToNumber v = (if toString_throws v then None else Some (ToNumber_total v))"

text \<open>\<^verbatim>\<open>ToBoolean\<close>, as the operators \<^verbatim>\<open>||\<close>, \<^verbatim>\<open>!\<close>, \<^verbatim>\<open>? :\<close> and \<^verbatim>\<open>if\<close> apply it.\<close>

fun truthy :: "jsval \<Rightarrow> bool" where
  "truthy Undefined = False"
| "truthy Null = False"
| "truthy (Bool b) = b"
| "truthy (Num n) = (n \<noteq> Fin 0 \<and> n \<noteq> NaN)"
| "truthy (Str s) = (s \<noteq> [])"
| "truthy (Arr _) = True"
| "truthy (Obj _) = True"

text \<open>\<^verbatim>\<open>a || b\<close> on values.\<close>

definition js_or :: "jsval \<Rightarrow> jsval \<Rightarrow> jsval" where
  "js_or a b = (if truthy a then a else b)"

text \<open>
  Reading a property by name, \<^verbatim>\<open>v.k\<close>: a TypeError (\<open>None\<close>) on \<^verbatim>\<open>null\<close> and \<^verbatim>\<open>undefined\<close>,
  the property's value on an object that has it, \<^verbatim>\<open>undefined\<close> otherwise. None of the names
  the program reads is a property that objects, arrays, strings, numbers or booleans
  inherit, so only an object's own properties are looked at.
\<close>

fun js_get :: "jsval \<Rightarrow> string \<Rightarrow> jsval option" where
  "js_get Undefined k = None"
| "js_get Null k = None"
| "js_get (Obj kvs) k = Some (case map_of kvs k of None \<Rightarrow> Undefined | Some v \<Rightarrow> v)"
| "js_get _ k = Some Undefined"

text \<open>Decimal digits of a natural number, as an index is turned into a property name.\<close>

definition digit_char :: "nat \<Rightarrow> char" where
  "digit_char d = ''0123456789'' ! d"

function show_nat :: "nat \<Rightarrow> string" where
  "show_nat n =
     (if n < 10 then [digit_char n] else show_nat (n div 10) @ [digit_char (n mod 10)])"
  by pat_completeness auto
termination
  by (relation "measure id") auto

declare show_nat.simps [simp del]

text \<open>
  Reading an element by index, \<^verbatim>\<open>v[i]\<close>: the element of an array, the character of a string,
  the property of an object whose name is the index in decimal; \<^verbatim>\<open>undefined\<close> out of range.
\<close>

fun js_index :: "jsval \<Rightarrow> nat \<Rightarrow> jsval option" where
  "js_index Undefined i = None"
| "js_index Null i = None"
| "js_index (Arr xs) i = Some (if i < length xs then xs ! i else Undefined)"
| "js_index (Str s) i = Some (if i < length s then Str [s ! i] else Undefined)"
| "js_index (Obj kvs) i = js_get (Obj kvs) (show_nat i)"
| "js_index _ i = Some Undefined"

section \<open>Weather icons\<close>

text \<open>
  The five icons are emoji in the source: sun U+2600, cloud U+2601, rain cloud U+1F327,
  snowflake U+2744, thunder cloud U+26C8.
\<close>

datatype weather_icon = Sun | Cloud | Rain | Snow | Storm

text \<open>
  \<^verbatim>\<open>code === 0\<close> holds of the number 0 only; \<^verbatim>\<open>code <= n\<close> converts \<^verbatim>\<open>code\<close> to a number
  first, which throws for the objects described above (\<open>None\<close>).
\<close>

definition js_le_num :: "jsval \<Rightarrow> rat \<Rightarrow> bool option" where
  "js_le_num v n = map_option (\<lambda>x. num_le x (Fin n)) (ToNumber v)"

definition getWeatherIcon :: "jsval \<Rightarrow> weather_icon option" where
  "getWeatherIcon code =
     (if code = Num (Fin 0) then Some Sun
      else do {
        c3 \<leftarrow> js_le_num code 3;
        if c3 then Some Cloud
        else do {
          c67 \<leftarrow> js_le_num code 67;
          if c67 then Some Rain
          else do {
            c77 \<leftarrow> js_le_num code 77;
            if c77 then Some Snow
            else do {
              c99 \<leftarrow> js_le_num code 99;
              if c99 then Some Storm else Some Sun
            }
          }
        }
      })"

text \<open>A weather code is a number; an integer code \<open>c\<close> is the value \<open>code_of c\<close>.\<close>

definition code_of :: "int \<Rightarrow> jsval" where
  "code_of c = Num (Fin (of_int c))"

section \<open>The host: dates and number printing\<close>

text \<open>
  Two things the program takes from the browser are parameters of the model:
  \<^item> \<^verbatim>\<open>new Date(v)\<close>, which depends on the date parser and on the local time zone: \<open>None\<close>
    when the constructor throws, an invalid date, or the local calendar fields of a valid one;
  \<^item> the printing of a finite number that is not an integer below \<open>10\<^sup>2\<^sup>1\<close>, which depends on
    the digits of the double.
\<close>

datatype jsdate =
    InvalidDate
  | ValidDate (month: nat) (mday: nat) (hours: nat) (minutes: nat) (wday: nat)

record host =
  newDate :: "jsval \<Rightarrow> jsdate option"
  numberToString :: "rat \<Rightarrow> string"

text \<open>\<^verbatim>\<open>getDate()\<close>, \<^verbatim>\<open>getHours()\<close>, \<^verbatim>\<open>getMinutes()\<close>: \<^verbatim>\<open>NaN\<close> on an invalid date.\<close>

definition date_field :: "(jsdate \<Rightarrow> nat) \<Rightarrow> jsdate \<Rightarrow> jsnum" where
  "date_field f d = (case d of InvalidDate \<Rightarrow> NaN | _ \<Rightarrow> Fin (of_nat (f d)))"

text \<open>\<^verbatim>\<open>'' + num\<close>: the text of a number.\<close>

definition num_to_string :: "host \<Rightarrow> jsnum \<Rightarrow> string" where
  "num_to_string h x =
     (case x of
        NaN \<Rightarrow> ''NaN''
      | PInf \<Rightarrow> ''Infinity''
      | NInf \<Rightarrow> ''-Infinity''
      | Fin q \<Rightarrow>
          if q = of_int \<lfloor>q\<rfloor> \<and> \<bar>q\<bar> < 10 ^ 21
          then (if q < 0 then ''-'' else []) @ show_nat (nat \<bar>\<lfloor>q\<rfloor>\<bar>)
          else numberToString h q)"

definition padZero :: "host \<Rightarrow> jsnum \<Rightarrow> string" where
  "padZero h num =
     (if num_lt num (Fin 10) then ''0'' @ num_to_string h num else num_to_string h num)"

definition months :: "string list" where
  "months = [''Jan'', ''Feb'', ''Mar'', ''Apr'', ''May'', ''Jun'',
             ''Jul'', ''Aug'', ''Sep'', ''Oct'', ''Nov'', ''Dec'']"

definition days :: "string list" where
  "days = [''Sun'', ''Mon'', ''Tue'', ''Wed'', ''Thu'', ''Fri'', ''Sat'']"

text \<open>
  The text \<^verbatim>\<open>months[d.getMonth()] + ' ' + d.getDate() + ', ' + padZero(d.getHours()) + ':' +
  padZero(d.getMinutes())\<close> that the OXR and Alt handlers build; an array read at \<^verbatim>\<open>NaN\<close> is
  \<^verbatim>\<open>undefined\<close>.
\<close>

definition format_dateTime :: "host \<Rightarrow> jsdate \<Rightarrow> string" where
  "format_dateTime h d =
     (case d of
        InvalidDate \<Rightarrow> ''undefined''
      | ValidDate m _ _ _ _ \<Rightarrow> if m < length months then months ! m else ''undefined'')
     @ '' '' @ num_to_string h (date_field mday d)
     @ '', '' @ padZero h (date_field hours d)
     @ '':'' @ padZero h (date_field minutes d)"

text \<open>
  \<^verbatim>\<open>getDayName\<close>: \<^verbatim>\<open>days[new Date(dateStr).getDay()]\<close>; \<open>None\<close> when the constructor throws.
\<close>

definition getDayName :: "host \<Rightarrow> jsval \<Rightarrow> jsval option" where
  "getDayName h dateStr = do {
     date \<leftarrow> newDate h dateStr;
     Some (case date of
             InvalidDate \<Rightarrow> Undefined
           | ValidDate _ _ _ _ w \<Rightarrow> if w < length days then Str (days ! w) else Undefined)
   }"

text \<open>
  \<^verbatim>\<open>x.toFixed(5)\<close> on a number: the integer nearest to \<open>|x| * 10\<^sup>5\<close> (the larger one on a
  tie), printed with at least six digits and a point before the last five.
\<close>

definition toFixed5 :: "host \<Rightarrow> jsnum \<Rightarrow> string" where
  "toFixed5 h x =
     (case x of
        NaN \<Rightarrow> ''NaN''
      | PInf \<Rightarrow> ''Infinity''
      | NInf \<Rightarrow> ''-Infinity''
      | Fin q \<Rightarrow>
          (if q < 0 then ''-'' else []) @
          (if 10 ^ 21 \<le> \<bar>q\<bar> then num_to_string h (Fin \<bar>q\<bar>)
           else
             let m = show_nat (nat (round_half_up (\<bar>q\<bar> * 10 ^ 5)));
                 z = replicate (6 - length m) CHR ''0'' @ m
             in take (length z - 5) z @ ''.'' @ drop (length z - 5) z))"

section \<open>Currency: three sources joined by a counter\<close>

text \<open>
  \<^verbatim>\<open>fetchCurrency(thresholds, callback)\<close> sends three requests. Each request delivers one
  event, \<^verbatim>\<open>load\<close> or \<^verbatim>\<open>error\<close>; JavaScript runs the handlers one at a time, so a call is a
  sequence of events applied to the variables the closures share: the two thresholds,
  \<^verbatim>\<open>results\<close>, \<^verbatim>\<open>completed\<close>, and the invocations of \<^verbatim>\<open>callback\<close> so far. The three
  \<^verbatim>\<open>open\<close> and \<^verbatim>\<open>send\<close> are taken to return, and so is the callback.
\<close>

datatype feed = OXR | ECB | Alt

text \<open>
  What a handler stores: \<^verbatim>\<open>{rate, dateTime}\<close> for OXR and Alt, \<^verbatim>\<open>{rate, date}\<close> for ECB.
\<close>

datatype source_result =
    WithDateTime (src_rate: string) (dateTime: jsval)
  | WithDate (src_rate: string) (date: jsval)

record source_results =
  oxr :: "source_result option"
  ecb :: "source_result option"
  alt :: "source_result option"

record currency_data =
  rate :: string
  source :: string
  status :: string
  details :: source_results

text \<open>The thresholds the caller passes are numbers; a property may be missing.\<close>

record thresholds =
  low :: "jsnum option"
  high :: "jsnum option"

record fc_state =
  lowThreshold :: jsnum
  highThreshold :: jsnum
  results :: source_results
  completed :: nat
  calls :: "(jsval \<times> currency_data) list"

text \<open>\<^verbatim>\<open>thresholds.low || 1.1\<close>: a missing property is \<^verbatim>\<open>undefined\<close>.\<close>

definition or_default :: "jsnum option \<Rightarrow> jsnum \<Rightarrow> jsnum" where
  "or_default v d =
     (case js_or (case v of None \<Rightarrow> Undefined | Some n \<Rightarrow> Num n) (Num d) of
        Num n \<Rightarrow> n
      | _ \<Rightarrow> d)"

definition fetchCurrency_init :: "thresholds \<Rightarrow> fc_state" where
  "fetchCurrency_init th =
     \<lparr> lowThreshold = or_default (low th) (Fin (11 / 10)),
       highThreshold = or_default (high th) (Fin (12 / 10)),
       results = \<lparr> oxr = None, ecb = None, alt = None \<rparr>,
       completed = 0,
       calls = [] \<rparr>"

text \<open>The local variables of \<^verbatim>\<open>checkComplete\<close>; a stored result is an object, so it is truthy.\<close>

definition displayRate :: "source_results \<Rightarrow> string" where
  "displayRate r =
     (case oxr r of
        Some x \<Rightarrow> src_rate x
      | None \<Rightarrow>
          (case ecb r of
             Some x \<Rightarrow> src_rate x
           | None \<Rightarrow> (case alt r of Some x \<Rightarrow> src_rate x | None \<Rightarrow> ''0.00000'')))"

definition sourceLabel :: "source_results \<Rightarrow> string" where
  "sourceLabel r =
     (case oxr r of
        Some _ \<Rightarrow> ''OXR''
      | None \<Rightarrow>
          (case ecb r of
             Some _ \<Rightarrow> ''ECB''
           | None \<Rightarrow> (case alt r of Some _ \<Rightarrow> ''Alt'' | None \<Rightarrow> [])))"

definition rateStatus :: "jsnum \<Rightarrow> jsnum \<Rightarrow> jsnum \<Rightarrow> string" where
  "rateStatus rateNum lo hi =
     (if num_lt rateNum lo then ''low'' else if num_gt rateNum hi then ''high'' else [])"

text \<open>The object that \<^verbatim>\<open>checkComplete\<close> passes to the callback.\<close>

definition callback_data :: "jsnum \<Rightarrow> jsnum \<Rightarrow> source_results \<Rightarrow> currency_data" where
  "callback_data lo hi r =
     \<lparr> rate = displayRate r,
       source = sourceLabel r,
       status = rateStatus (parseFloat (displayRate r)) lo hi,
       details = r \<rparr>"

text \<open>\<^verbatim>\<open>callback(null, {...})\<close> is recorded as the pair of its two arguments.\<close>

definition checkComplete :: "fc_state \<Rightarrow> fc_state" where
  "checkComplete s =
     (let s1 = s\<lparr>completed := completed s + 1\<rparr>
      in if 3 \<le> completed s1 then
           s1\<lparr>calls := calls s1 @
                 [(Null, callback_data (lowThreshold s1) (highThreshold s1) (results s1))]\<rparr>
         else s1)"

text \<open>
  The \<^verbatim>\<open>try\<close> blocks of the three \<^verbatim>\<open>onload\<close> handlers, from the outcome of
  \<^verbatim>\<open>JSON.parse(xhr.responseText)\<close> (\<open>None\<close> when it throws) to the result stored; \<open>None\<close> is an
  exception, which the empty \<^verbatim>\<open>catch\<close> swallows. \<^verbatim>\<open>toFixed\<close> exists on numbers only: calling
  it on anything else is a TypeError.
\<close>

definition call_toFixed5 :: "host \<Rightarrow> jsval \<Rightarrow> string option" where
  "call_toFixed5 h v = (case v of Num n \<Rightarrow> Some (toFixed5 h (dbl n)) | _ \<Rightarrow> None)"

definition oxr_try :: "host \<Rightarrow> jsval option \<Rightarrow> source_result option" where
  "oxr_try h parsed = do {
     data \<leftarrow> parsed;
     rates \<leftarrow> js_get data ''rates'';
     usdEurRate \<leftarrow> js_get rates ''EUR'';
     d \<leftarrow> ToNumber usdEurRate;
     timestamp \<leftarrow> js_get data ''timestamp'';
     t \<leftarrow> ToNumber timestamp;
     updateDate \<leftarrow> newDate h (Num (dbl_mul (dbl t) (Fin 1000)));
     Some (WithDateTime (toFixed5 h (dbl_div (Fin 1) (dbl d))) (Str (format_dateTime h updateDate)))
   }"

definition ecb_try :: "host \<Rightarrow> jsval option \<Rightarrow> source_result option" where
  "ecb_try h parsed = do {
     data \<leftarrow> parsed;
     rates \<leftarrow> js_get data ''rates'';
     usd \<leftarrow> js_get rates ''USD'';
     r \<leftarrow> call_toFixed5 h usd;
     d \<leftarrow> js_get data ''date'';
     Some (WithDate r d)
   }"

definition alt_try :: "host \<Rightarrow> jsval option \<Rightarrow> source_result option" where
  "alt_try h parsed = do {
     data \<leftarrow> parsed;
     rates \<leftarrow> js_get data ''rates'';
     usd \<leftarrow> js_get rates ''USD'';
     r \<leftarrow> call_toFixed5 h usd;
     tlu \<leftarrow> js_get data ''time_last_update_utc'';
     dt \<leftarrow> (if truthy tlu then do {
               updateDate \<leftarrow> newDate h tlu;
               Some (if updateDate \<noteq> InvalidDate then Str (format_dateTime h updateDate)
                     else Null)
             } else Some Null);
     Some (WithDateTime r dt)
   }"

text \<open>
  The handlers \<^verbatim>\<open>xhr1.onload\<close> (OXR), \<^verbatim>\<open>xhr2.onload\<close> (ECB) and \<^verbatim>\<open>xhr3.onload\<close> (Alt), from
  \<^verbatim>\<open>xhr.status\<close> and the outcome of \<^verbatim>\<open>JSON.parse\<close>: on status 200 the \<^verbatim>\<open>try\<close> block runs and
  stores its result unless it throws; then \<^verbatim>\<open>checkComplete()\<close>.
\<close>

definition xhr1_onload :: "host \<Rightarrow> nat \<Rightarrow> jsval option \<Rightarrow> fc_state \<Rightarrow> fc_state" where
  "xhr1_onload h st parsed s =
     checkComplete
       (if st = 200 then
          (case oxr_try h parsed of
             None \<Rightarrow> s
           | Some x \<Rightarrow> s\<lparr>results := (results s)\<lparr>oxr := Some x\<rparr>\<rparr>)
        else s)"

definition xhr2_onload :: "host \<Rightarrow> nat \<Rightarrow> jsval option \<Rightarrow> fc_state \<Rightarrow> fc_state" where
  "xhr2_onload h st parsed s =
     checkComplete
       (if st = 200 then
          (case ecb_try h parsed of
             None \<Rightarrow> s
           | Some x \<Rightarrow> s\<lparr>results := (results s)\<lparr>ecb := Some x\<rparr>\<rparr>)
        else s)"

definition xhr3_onload :: "host \<Rightarrow> nat \<Rightarrow> jsval option \<Rightarrow> fc_state \<Rightarrow> fc_state" where
  "xhr3_onload h st parsed s =
     checkComplete
       (if st = 200 then
          (case alt_try h parsed of
             None \<Rightarrow> s
           | Some x \<Rightarrow> s\<lparr>results := (results s)\<lparr>alt := Some x\<rparr>\<rparr>)
        else s)"

text \<open>The three \<^verbatim>\<open>onerror\<close> handlers are the same: \<^verbatim>\<open>function() { checkComplete(); }\<close>.\<close>

definition xhr_onerror :: "fc_state \<Rightarrow> fc_state" where
  "xhr_onerror s = checkComplete s"

text \<open>
  An event of a request: \<^verbatim>\<open>load\<close> with the status and the parsed body, or \<^verbatim>\<open>error\<close>. An
  event of a call is an event of one of its three requests, and it runs that request's
  handler.
\<close>

datatype xhr_event = OnLoad nat "jsval option" | OnError

definition deliver :: "host \<Rightarrow> feed \<times> xhr_event \<Rightarrow> fc_state \<Rightarrow> fc_state" where
  "deliver h fe s =
     (case snd fe of
        OnError \<Rightarrow> xhr_onerror s
      | OnLoad st parsed \<Rightarrow>
          (case fst fe of
             OXR \<Rightarrow> xhr1_onload h st parsed s
           | ECB \<Rightarrow> xhr2_onload h st parsed s
           | Alt \<Rightarrow> xhr3_onload h st parsed s))"

text \<open>A call of \<^verbatim>\<open>fetchCurrency\<close> and the events that follow it, in the order they arrive.\<close>

definition fetchCurrency :: "host \<Rightarrow> thresholds \<Rightarrow> (feed \<times> xhr_event) list \<Rightarrow> fc_state" where
  "fetchCurrency h th evs = fold (deliver h) evs (fetchCurrency_init th)"

text \<open>
  What the handler of a source stores for an event: nothing on \<^verbatim>\<open>error\<close>, on a status other
  than 200, and on an exception in the \<^verbatim>\<open>try\<close> block. A source fails when its handler stores
  nothing.
\<close>

definition feed_try :: "host \<Rightarrow> feed \<Rightarrow> jsval option \<Rightarrow> source_result option" where
  "feed_try h f parsed =
     (case f of OXR \<Rightarrow> oxr_try h parsed | ECB \<Rightarrow> ecb_try h parsed | Alt \<Rightarrow> alt_try h parsed)"

definition outcome :: "host \<Rightarrow> feed \<Rightarrow> xhr_event \<Rightarrow> source_result option" where
  "outcome h f e =
     (case e of
        OnLoad st parsed \<Rightarrow> if st = 200 then feed_try h f parsed else None
      | OnError \<Rightarrow> None)"

definition fails :: "host \<Rightarrow> feed \<times> xhr_event \<Rightarrow> bool" where
  "fails h fe = (outcome h (fst fe) (snd fe) = None)"

text \<open>Writing and reading the entry of a source in \<^verbatim>\<open>results\<close>.\<close>

definition store :: "feed \<Rightarrow> source_result \<Rightarrow> source_results \<Rightarrow> source_results" where
  "store f x r =
     (case f of OXR \<Rightarrow> r\<lparr>oxr := Some x\<rparr> | ECB \<Rightarrow> r\<lparr>ecb := Some x\<rparr> | Alt \<Rightarrow> r\<lparr>alt := Some x\<rparr>)"

definition stored :: "feed \<Rightarrow> source_results \<Rightarrow> source_result option" where
  "stored f r = (case f of OXR \<Rightarrow> oxr r | ECB \<Rightarrow> ecb r | Alt \<Rightarrow> alt r)"

section \<open>Weather: reshaping a forecast\<close>

text \<open>
  \<^verbatim>\<open>fetchWeather(lat, lon, callback)\<close> sends one request; the coordinates only go into its
  address. The request delivers one event, and the handler of that event calls the callback
  once: with \<^verbatim>\<open>{error: ...}\<close>, or with \<^verbatim>\<open>null\<close> and the record built from the body.
\<close>

record current_conditions =
  tempC :: jsnum
  tempF :: jsnum
  feelsLikeC :: jsnum
  feelsLikeF :: jsnum
  humidity :: jsval
  windSpeed :: jsnum
  weatherCode :: jsval
  icon :: weather_icon

text \<open>
  The fields that \<^verbatim>\<open>today\<close> and an entry of \<^verbatim>\<open>forecast\<close> share, and the two records; \<open>dayIcon\<close>
  is the entry's \<^verbatim>\<open>icon\<close>.
\<close>

record day_temps =
  highC :: jsnum
  highF :: jsnum
  lowC :: jsnum
  lowF :: jsnum
  rainChance :: jsval

record today_summary = day_temps +
  sunrise :: jsdate
  sunset :: jsdate

record forecast_day = day_temps +
  day :: jsval
  dayIcon :: weather_icon

record processed =
  current :: current_conditions
  today :: today_summary
  forecast :: "forecast_day list"

datatype weather_error = ApiError jsval | ParseError | HttpError nat | NetworkError | RequestTimeout

datatype weather_call = Failure weather_error | Success processed

text \<open>\<^verbatim>\<open>Math.round(v)\<close> and \<^verbatim>\<open>Math.round(v * 9/5 + 32)\<close> on a value read from the body.\<close>

definition round_of :: "jsval \<Rightarrow> jsnum option" where
  "round_of v = map_option (\<lambda>c. Math_round (dbl c)) (ToNumber v)"

definition fahrenheit_of :: "jsval \<Rightarrow> jsnum option" where
  "fahrenheit_of v =
     map_option (\<lambda>c. Math_round (dbl_add (dbl_div (dbl_mul (dbl c) (Fin 9)) (Fin 5)) (Fin 32)))
       (ToNumber v)"

text \<open>\<^verbatim>\<open>data.current.name\<close> and \<^verbatim>\<open>data.daily.name[i]\<close>.\<close>

definition current_field :: "jsval \<Rightarrow> string \<Rightarrow> jsval option" where
  "current_field data name = do { cur \<leftarrow> js_get data ''current''; js_get cur name }"

definition daily_at :: "jsval \<Rightarrow> string \<Rightarrow> nat \<Rightarrow> jsval option" where
  "daily_at data name i = do {
     daily \<leftarrow> js_get data ''daily'';
     arr \<leftarrow> js_get daily name;
     js_index arr i
   }"

definition build_current :: "jsval \<Rightarrow> current_conditions option" where
  "build_current data = do {
     t \<leftarrow> current_field data ''temperature_2m'';
     tc \<leftarrow> round_of t;
     tf \<leftarrow> fahrenheit_of t;
     a \<leftarrow> current_field data ''apparent_temperature'';
     ac \<leftarrow> round_of a;
     af \<leftarrow> fahrenheit_of a;
     hum \<leftarrow> current_field data ''relative_humidity_2m'';
     w \<leftarrow> current_field data ''wind_speed_10m'';
     ws \<leftarrow> round_of w;
     code \<leftarrow> current_field data ''weather_code'';
     ic \<leftarrow> getWeatherIcon code;
     Some \<lparr> tempC = tc, tempF = tf, feelsLikeC = ac, feelsLikeF = af, humidity = hum,
            windSpeed = ws, weatherCode = code, icon = ic \<rparr>
   }"

definition build_today :: "host \<Rightarrow> jsval \<Rightarrow> today_summary option" where
  "build_today h data = do {
     mx \<leftarrow> daily_at data ''temperature_2m_max'' 0;
     hc \<leftarrow> round_of mx;
     hf \<leftarrow> fahrenheit_of mx;
     mn \<leftarrow> daily_at data ''temperature_2m_min'' 0;
     lc \<leftarrow> round_of mn;
     lf \<leftarrow> fahrenheit_of mn;
     pp \<leftarrow> daily_at data ''precipitation_probability_max'' 0;
     sr \<leftarrow> daily_at data ''sunrise'' 0;
     rise \<leftarrow> newDate h sr;
     ss \<leftarrow> daily_at data ''sunset'' 0;
     set \<leftarrow> newDate h ss;
     Some \<lparr> highC = hc, highF = hf, lowC = lc, lowF = lf,
            rainChance = js_or pp (Num (Fin 0)), sunrise = rise, sunset = set \<rparr>
   }"

text \<open>The object pushed for the day at index \<open>i\<close>.\<close>

definition forecast_entry :: "host \<Rightarrow> jsval \<Rightarrow> nat \<Rightarrow> forecast_day option" where
  "forecast_entry h data i = do {
     tm \<leftarrow> daily_at data ''time'' i;
     name \<leftarrow> getDayName h tm;
     mx \<leftarrow> daily_at data ''temperature_2m_max'' i;
     hc \<leftarrow> round_of mx;
     hf \<leftarrow> fahrenheit_of mx;
     mn \<leftarrow> daily_at data ''temperature_2m_min'' i;
     lc \<leftarrow> round_of mn;
     lf \<leftarrow> fahrenheit_of mn;
     code \<leftarrow> daily_at data ''weather_code'' i;
     ic \<leftarrow> getWeatherIcon code;
     pp \<leftarrow> daily_at data ''precipitation_probability_max'' i;
     Some \<lparr> highC = hc, highF = hf, lowC = lc, lowF = lf,
            rainChance = js_or pp (Num (Fin 0)), day = name, dayIcon = ic \<rparr>
   }"

text \<open>\<^verbatim>\<open>for (var i = 1; i <= 3; i++) processed.forecast.push({...})\<close>.\<close>

function forecast_loop ::
  "host \<Rightarrow> jsval \<Rightarrow> nat \<Rightarrow> forecast_day list \<Rightarrow> forecast_day list option" where
  "forecast_loop h data i acc =
     (if i \<le> 3 then
        (case forecast_entry h data i of
           None \<Rightarrow> None
         | Some e \<Rightarrow> forecast_loop h data (i + 1) (acc @ [e]))
      else Some acc)"
  by pat_completeness auto
termination
  by (relation "measure (\<lambda>(h, data, i, acc). 4 - i)") auto

declare forecast_loop.simps [simp del]

definition build_processed :: "host \<Rightarrow> jsval \<Rightarrow> processed option" where
  "build_processed h data = do {
     c \<leftarrow> build_current data;
     t \<leftarrow> build_today h data;
     f \<leftarrow> forecast_loop h data 1 [];
     Some \<lparr> current = c, today = t, forecast = f \<rparr>
   }"

text \<open>
  \<^verbatim>\<open>if (data.error || data.reason)\<close>: \<open>None\<close> when reading the property throws, \<open>Some None\<close>
  when the body reports no error, and otherwise the value passed as \<^verbatim>\<open>error\<close>, which is
  \<^verbatim>\<open>data.reason || (typeof data.error === 'string' ? data.error : 'Unknown error')\<close>.
\<close>

definition api_error :: "jsval \<Rightarrow> jsval option option" where
  "api_error data = do {
     err \<leftarrow> js_get data ''error'';
     reason \<leftarrow> js_get data ''reason'';
     Some (if truthy err \<or> truthy reason
           then Some (js_or reason (case err of Str s \<Rightarrow> Str s | _ \<Rightarrow> Str ''Unknown error''))
           else None)
   }"

text \<open>
  \<^verbatim>\<open>xhr.onload\<close>, from the status and the outcome of \<^verbatim>\<open>JSON.parse(xhr.responseText)\<close>. Every
  exception inside the \<^verbatim>\<open>try\<close> block ends in the \<^verbatim>\<open>catch\<close>, which reports a parse error (its
  text, the engine's message, is not kept).
\<close>

definition weather_onload :: "host \<Rightarrow> nat \<Rightarrow> jsval option \<Rightarrow> weather_call" where
  "weather_onload h st parsed =
     (if st = 200 then
        (case parsed of
           None \<Rightarrow> Failure ParseError
         | Some data \<Rightarrow>
             (case api_error data of
                None \<Rightarrow> Failure ParseError
              | Some (Some e) \<Rightarrow> Failure (ApiError e)
              | Some None \<Rightarrow>
                  (case build_processed h data of
                     None \<Rightarrow> Failure ParseError
                   | Some p \<Rightarrow> Success p)))
      else Failure (HttpError st))"

datatype weather_event = WLoad nat "jsval option" | WError | WTimeout

definition fetchWeather :: "host \<Rightarrow> weather_event \<Rightarrow> weather_call" where
  "fetchWeather h ev =
     (case ev of
        WLoad st parsed \<Rightarrow> weather_onload h st parsed
      | WError \<Rightarrow> Failure NetworkError
      | WTimeout \<Rightarrow> Failure RequestTimeout)"

section \<open>The edge relay\<close>

text \<open>
  The relay is a worker with one handler, \<^verbatim>\<open>fetch\<close>. Two versions of it are in the
  repository: the first forwards a request as it is, the second can add an API key. What
  they take from the platform is a parameter of the model: the URL parser (\<open>None\<close> when
  \<^verbatim>\<open>new URL(s)\<close> throws), the serialiser \<^verbatim>\<open>toString()\<close> of a URL, and the outcome of the
  outgoing \<^verbatim>\<open>fetch\<close>.
\<close>

record url =
  protocol :: string
  username :: string
  password :: string
  hostname :: string
  port :: string
  pathname :: string
  searchParams :: "(string \<times> string) list"
  hash :: string

text \<open>A response; the names of headers are kept in lower case, as \<^verbatim>\<open>Headers\<close> does.\<close>

record response =
  resp_status :: nat
  resp_statusText :: string
  resp_headers :: "(string \<times> string) list"
  resp_body :: string

text \<open>
  The outcome of \<^verbatim>\<open>await fetch(targetUrl)\<close> (and, in the first version, of reading the body
  as text): a response, or an exception with its message.
\<close>

datatype upstream_result = Fetched response | FetchFailed string

record web =
  parseURL :: "string \<Rightarrow> url option"
  urlToString :: "url \<Rightarrow> string"
  upstream :: "string \<Rightarrow> upstream_result"

text \<open>The secrets of the worker; a secret that is not configured is \<^verbatim>\<open>undefined\<close>.\<close>

record worker_env =
  OPENMETEO_API_KEY :: "string option"

definition allowedDomains :: "string list" where
  "allowedDomains =
     [''api.open-meteo.com'', ''openexchangerates.org'', ''api.frankfurter.app'',
      ''api.exchangerate-api.com'']"

text \<open>\<^verbatim>\<open>searchParams.get(name)\<close>: the value of the first pair with that name, or \<^verbatim>\<open>null\<close>.\<close>

definition searchParams_get :: "(string \<times> string) list \<Rightarrow> string \<Rightarrow> string option" where
  "searchParams_get ps name = map_of ps name"

text \<open>
  \<^verbatim>\<open>searchParams.set(name, value)\<close>: the first pair with that name takes the value and the
  other pairs with that name are removed; when there is none, a pair is appended.
\<close>

definition searchParams_set ::
  "string \<Rightarrow> string \<Rightarrow> (string \<times> string) list \<Rightarrow> (string \<times> string) list" where
  "searchParams_set name v ps =
     (if name \<in> set (map fst ps)
      then takeWhile (\<lambda>p. fst p \<noteq> name) ps @ [(name, v)] @
           filter (\<lambda>p. fst p \<noteq> name) (dropWhile (\<lambda>p. fst p \<noteq> name) ps)
      else ps @ [(name, v)])"

text \<open>\<^verbatim>\<open>headers.set(name, value)\<close>, the same on headers.\<close>

definition headers_set ::
  "string \<Rightarrow> string \<Rightarrow> (string \<times> string) list \<Rightarrow> (string \<times> string) list" where
  "headers_set name v hs = searchParams_set name v hs"

text \<open>\<^verbatim>\<open>new Response(text, {status: st})\<close>.\<close>

definition text_response :: "string \<Rightarrow> nat \<Rightarrow> response" where
  "text_response text st =
     \<lparr> resp_status = st, resp_statusText = [],
       resp_headers = [(''content-type'', ''text/plain;charset=UTF-8'')],
       resp_body = text \<rparr>"

text \<open>
  What a handler does before the outgoing request: it answers at once, it forwards to an
  address, or (first version only) \<^verbatim>\<open>new URL(targetUrl)\<close> throws outside every \<^verbatim>\<open>try\<close>.
  The argument is the parsed \<^verbatim>\<open>request.url\<close>.
\<close>

datatype relay_step = Reply response | Forward string | Uncaught

definition route_v1 :: "web \<Rightarrow> url \<Rightarrow> relay_step" where
  "route_v1 w req =
     (case searchParams_get (searchParams req) ''url'' of
        None \<Rightarrow> Reply (text_response ''Missing url parameter'' 400)
      | Some targetUrl \<Rightarrow>
          if targetUrl = [] then Reply (text_response ''Missing url parameter'' 400)
          else
            (case parseURL w targetUrl of
               None \<Rightarrow> Uncaught
             | Some t \<Rightarrow>
                 if hostname t \<notin> set allowedDomains
                 then Reply (text_response ''Domain not allowed'' 403)
                 else Forward targetUrl))"

definition relay_headers :: "(string \<times> string) list \<Rightarrow> (string \<times> string) list" where
  "relay_headers hs =
     headers_set ''cache-control'' ''public, max-age=300''
       (headers_set ''access-control-allow-methods'' ''GET''
         (headers_set ''access-control-allow-origin'' ''*''
           (headers_set ''content-type'' ''application/json'' hs)))"

definition respond_v1 :: "upstream_result \<Rightarrow> response" where
  "respond_v1 r =
     (case r of
        Fetched u \<Rightarrow>
          \<lparr> resp_status = 200, resp_statusText = [],
            resp_headers = relay_headers [], resp_body = resp_body u \<rparr>
      | FetchFailed msg \<Rightarrow> text_response (''Proxy error: '' @ msg) 500)"

text \<open>The first version of \<^verbatim>\<open>fetch(request)\<close>; \<open>None\<close> is the uncaught exception.\<close>

definition fetch_v1 :: "web \<Rightarrow> url \<Rightarrow> response option" where
  "fetch_v1 w req =
     (case route_v1 w req of
        Reply r \<Rightarrow> Some r
      | Forward target \<Rightarrow> Some (respond_v1 (upstream w target))
      | Uncaught \<Rightarrow> None)"

text \<open>
  The key injection of the second version: for Open-Meteo with a key configured (an empty
  key is falsy), the target is parsed again, \<^verbatim>\<open>apikey\<close> is set and the URL is serialised.
\<close>

definition inject_key :: "web \<Rightarrow> worker_env \<Rightarrow> url \<Rightarrow> string \<Rightarrow> string" where
  "inject_key w env t targetUrl =
     (if hostname t = ''api.open-meteo.com'' then
        (case OPENMETEO_API_KEY env of
           None \<Rightarrow> targetUrl
         | Some apiKey \<Rightarrow>
             if apiKey = [] then targetUrl
             else urlToString w
                    (t\<lparr>searchParams := searchParams_set ''apikey'' apiKey (searchParams t)\<rparr>))
      else targetUrl)"

definition route_v2 :: "web \<Rightarrow> worker_env \<Rightarrow> url \<Rightarrow> relay_step" where
  "route_v2 w env req =
     (case searchParams_get (searchParams req) ''url'' of
        None \<Rightarrow> Reply (text_response ''Missing url parameter'' 400)
      | Some targetUrl \<Rightarrow>
          if targetUrl = [] then Reply (text_response ''Missing url parameter'' 400)
          else
            (case parseURL w targetUrl of
               None \<Rightarrow> Reply (text_response ''Invalid target URL format'' 400)
             | Some t \<Rightarrow>
                 if hostname t \<notin> set allowedDomains
                 then Reply (text_response ''Domain not allowed'' 403)
                 else Forward (inject_key w env t targetUrl)))"

definition respond_v2 :: "upstream_result \<Rightarrow> response" where
  "respond_v2 r =
     (case r of
        Fetched u \<Rightarrow> u\<lparr>resp_headers := relay_headers (resp_headers u)\<rparr>
      | FetchFailed msg \<Rightarrow> text_response (''Proxy error: '' @ msg) 500)"

text \<open>
  The second version of \<^verbatim>\<open>fetch(request, env)\<close>; it has no uncaught exception. The status
  of the upstream response is taken to be one that \<^verbatim>\<open>new Response\<close> accepts.
\<close>

definition fetch_v2 :: "web \<Rightarrow> worker_env \<Rightarrow> url \<Rightarrow> response option" where
  "fetch_v2 w env req =
     (case route_v2 w env req of
        Reply r \<Rightarrow> Some r
      | Forward target \<Rightarrow> Some (respond_v2 (upstream w target))
      | Uncaught \<Rightarrow> None)"

section \<open>Example inputs\<close>

text \<open>
  A host for the worked examples: it knows one date, Monday 15 January 2024, and prints no
  fractions.
\<close>

definition example_host :: host where
  "example_host =
     \<lparr> newDate = (\<lambda>v. if v = Str ''2024-01-15'' then Some (ValidDate 0 15 0 0 1)
                      else Some InvalidDate),
       numberToString = (\<lambda>q. ''?'') \<rparr>"

text \<open>A body of the ECB service with the rate 1.05, and a run where only that source succeeds.\<close>

definition ecb_body :: jsval where
  "ecb_body = Obj [(''rates'', Obj [(''USD'', Num (Fin (21 / 20)))]), (''date'', Str ''2024-01-15'')]"

definition ecb_only :: "(feed \<times> xhr_event) list" where
  "ecb_only = [(Alt, OnError), (ECB, OnLoad 200 (Some ecb_body)), (OXR, OnLoad 500 None)]"

definition all_failed :: "(feed \<times> xhr_event) list" where
  "all_failed = [(ECB, OnLoad 200 None), (OXR, OnError), (Alt, OnLoad 404 (Some Null))]"

definition no_thresholds :: thresholds where
  "no_thresholds = \<lparr> low = None, high = None \<rparr>"


text \<open>
  A forecast of four days. The chance of rain is 0 today, \<^verbatim>\<open>null\<close> on the second day and
  missing from the fourth on; the other arrays are complete.
\<close>

definition weather_body :: jsval where
  "weather_body =
     Obj [(''current'',
           Obj [(''temperature_2m'', Num (Fin (25 / 2))),
                (''relative_humidity_2m'', Num (Fin 60)),
                (''apparent_temperature'', Num (Fin (- 5 / 2))),
                (''weather_code'', Num (Fin 3)),
                (''wind_speed_10m'', Num (Fin (15 / 2)))]),
          (''daily'',
           Obj [(''time'', Arr [Str ''2024-01-14'', Str ''2024-01-15'', Str ''2024-01-16'',
                               Str ''2024-01-17'']),
                (''sunrise'', Arr [Str ''2024-01-14T07:58'']),
                (''sunset'', Arr [Str ''2024-01-14T16:20'']),
                (''temperature_2m_max'',
                 Arr [Num (Fin (25 / 2)), Num (Fin 10), Num (Fin (15 / 2)), Num (Fin (- 5 / 2))]),
                (''temperature_2m_min'',
                 Arr [Num (Fin 5), Num (Fin (- 5)), Num (Fin 0), Num (Fin (- 10))]),
                (''precipitation_probability_max'', Arr [Num (Fin 0), Null, Num (Fin 80)]),
                (''weather_code'', Arr [Num (Fin 3), Num (Fin 61), Num (Fin 71), Num (Fin 95)])])]"

text \<open>What the callback of \<^verbatim>\<open>fetchWeather\<close> gets for that forecast.\<close>

definition weather_shown :: processed where
  "weather_shown =
     \<lparr> current =
         \<lparr> tempC = Fin 13, tempF = Fin 55, feelsLikeC = Fin (- 2), feelsLikeF = Fin 28,
           humidity = Num (Fin 60), windSpeed = Fin 8, weatherCode = Num (Fin 3),
           icon = Cloud \<rparr>,
       today =
         \<lparr> highC = Fin 13, highF = Fin 55, lowC = Fin 5, lowF = Fin 41,
           rainChance = Num (Fin 0), sunrise = InvalidDate, sunset = InvalidDate \<rparr>,
       forecast =
         [\<lparr> highC = Fin 10, highF = Fin 50, lowC = Fin (- 5), lowF = Fin 23,
            rainChance = Num (Fin 0), day = Str ''Mon'', dayIcon = Rain \<rparr>,
          \<lparr> highC = Fin 8, highF = Fin 46, lowC = Fin 0, lowF = Fin 32,
            rainChance = Num (Fin 80), day = Undefined, dayIcon = Snow \<rparr>,
          \<lparr> highC = Fin (- 2), highF = Fin 28, lowC = Fin (- 10), lowF = Fin 14,
            rainChance = Num (Fin 0), day = Undefined, dayIcon = Storm \<rparr>] \<rparr>"

text \<open>
  A platform for the examples of the relay. It parses three addresses, serialises a URL
  without escaping, and has no network.
\<close>

definition query_string :: "(string \<times> string) list \<Rightarrow> string" where
  "query_string ps =
     (if ps = [] then []
      else ''?'' @ concat (map (\<lambda>p. fst p @ ''='' @ snd p) [hd ps]) @
           concat (map (\<lambda>p. ''&'' @ fst p @ ''='' @ snd p) (tl ps)))"

definition meteo_url :: url where
  "meteo_url =
     \<lparr> protocol = ''http:'', username = [], password = [], hostname = ''api.open-meteo.com'',
       port = [], pathname = ''/v1/forecast'',
       searchParams = [(''latitude'', ''52''), (''apikey'', ''mine'')], hash = [] \<rparr>"

definition ecb_url :: url where
  "ecb_url =
     \<lparr> protocol = ''https:'', username = [], password = [], hostname = ''api.frankfurter.app'',
       port = [], pathname = ''/latest'', searchParams = [(''from'', ''EUR'')], hash = [] \<rparr>"

definition other_url :: url where
  "other_url =
     \<lparr> protocol = ''https:'', username = [], password = [], hostname = ''example.org'',
       port = [], pathname = ''/'', searchParams = [], hash = [] \<rparr>"

definition example_web :: web where
  "example_web =
     \<lparr> parseURL =
         (\<lambda>s. if s = ''http://api.open-meteo.com/v1/forecast?latitude=52&apikey=mine''
              then Some meteo_url
              else if s = ''https://api.frankfurter.app/latest?from=EUR'' then Some ecb_url
              else if s = ''https://example.org/'' then Some other_url
              else None),
       urlToString =
         (\<lambda>u. protocol u @ ''//'' @ hostname u @ pathname u @ query_string (searchParams u)),
       upstream = (\<lambda>s. FetchFailed ''offline'') \<rparr>"

text \<open>A request to the relay with the given \<^verbatim>\<open>url\<close> parameter, and one without.\<close>

definition relay_request :: "string \<Rightarrow> url" where
  "relay_request target =
     \<lparr> protocol = ''https:'', username = [], password = [], hostname = ''relay.example'',
       port = [], pathname = ''/'', searchParams = [(''url'', target)], hash = [] \<rparr>"

definition bare_request :: url where
  "bare_request =
     \<lparr> protocol = ''https:'', username = [], password = [], hostname = ''relay.example'',
       port = [], pathname = ''/'', searchParams = [], hash = [] \<rparr>"

definition with_key :: worker_env where
  "with_key = \<lparr> OPENMETEO_API_KEY = Some ''secret'' \<rparr>"

definition without_key :: worker_env where
  "without_key = \<lparr> OPENMETEO_API_KEY = None \<rparr>"

section \<open>Properties\<close>

lemma ToNumber_Num: "ToNumber (Num n) = Some n"
  by (simp add: ToNumber_def)

lemma js_le_num_Fin: "js_le_num (Num (Fin q)) n = Some (q \<le> n)"
  by (auto simp: js_le_num_def ToNumber_Num num_le_def)

lemma js_le_num_Num: "\<exists>b. js_le_num (Num n) k = Some b"
  by (simp add: js_le_num_def ToNumber_Num)

lemma getWeatherIcon_int:
  "getWeatherIcon (code_of c) =
     Some (if c = 0 then Sun else if c \<le> 3 then Cloud else if c \<le> 67 then Rain
           else if c \<le> 77 then Snow else if c \<le> 99 then Storm else Sun)"
proof -
  have le: "\<And>k::int. (of_int c \<le> (of_int k :: rat)) = (c \<le> k)"
    by simp
  have "js_le_num (code_of c) 3 = Some (c \<le> 3)"
    using le [of 3] by (simp add: code_of_def js_le_num_Fin)
  moreover have "js_le_num (code_of c) 67 = Some (c \<le> 67)"
    using le [of 67] by (simp add: code_of_def js_le_num_Fin)
  moreover have "js_le_num (code_of c) 77 = Some (c \<le> 77)"
    using le [of 77] by (simp add: code_of_def js_le_num_Fin)
  moreover have "js_le_num (code_of c) 99 = Some (c \<le> 99)"
    using le [of 99] by (simp add: code_of_def js_le_num_Fin)
  moreover have "(code_of c = Num (Fin 0)) = (c = 0)"
    by (simp add: code_of_def)
  ultimately show ?thesis
    by (simp add: getWeatherIcon_def)
qed

lemma getWeatherIcon_number_total: "\<exists>i. getWeatherIcon (Num n) = Some i"
proof -
  obtain b3 b67 b77 b99 where
    "js_le_num (Num n) 3 = Some b3" "js_le_num (Num n) 67 = Some b67"
    "js_le_num (Num n) 77 = Some b77" "js_le_num (Num n) 99 = Some b99"
    using js_le_num_Num by metis
  then show ?thesis
    by (simp add: getWeatherIcon_def)
qed

text \<open>
  C10. \<^verbatim>\<open>getWeatherIcon\<close> returns an icon for every number (it is total on weather codes),
  and on integer codes the icons follow increasing range boundaries: 0 is the sun, 1 to 3
  the cloud, 4 to 67 the rain, 68 to 77 the snow, 78 to 99 the storm, and every code above
  99 is the sun again.
\<close>

theorem getWeatherIcon_partition:
  "(\<exists>i. getWeatherIcon (Num n) = Some i) \<and>
   getWeatherIcon (code_of 0) = Some Sun \<and>
   (1 \<le> c \<and> c \<le> 3 \<longrightarrow> getWeatherIcon (code_of c) = Some Cloud) \<and>
   (4 \<le> c \<and> c \<le> 67 \<longrightarrow> getWeatherIcon (code_of c) = Some Rain) \<and>
   (68 \<le> c \<and> c \<le> 77 \<longrightarrow> getWeatherIcon (code_of c) = Some Snow) \<and>
   (78 \<le> c \<and> c \<le> 99 \<longrightarrow> getWeatherIcon (code_of c) = Some Storm) \<and>
   (99 < c \<longrightarrow> getWeatherIcon (code_of c) = Some Sun)"
  using getWeatherIcon_number_total [of n] getWeatherIcon_int [of c] getWeatherIcon_int [of 0]
  by auto

theorem getWeatherIcon_partition_witness:
  "getWeatherIcon (code_of 2) = Some Cloud \<and> getWeatherIcon (code_of 45) = Some Rain \<and>
   getWeatherIcon (code_of 71) = Some Snow \<and> getWeatherIcon (code_of 95) = Some Storm \<and>
   getWeatherIcon (code_of 100) = Some Sun"
  using getWeatherIcon_partition [of "Fin 0" 2] getWeatherIcon_partition [of "Fin 0" 45]
    getWeatherIcon_partition [of "Fin 0" 71] getWeatherIcon_partition [of "Fin 0" 95]
    getWeatherIcon_partition [of "Fin 0" 100]
  by simp

subsection \<open>The counter and the callback\<close>

lemma checkComplete_fields:
  "completed (checkComplete s) = completed s + 1"
  "results (checkComplete s) = results s"
  "lowThreshold (checkComplete s) = lowThreshold s"
  "highThreshold (checkComplete s) = highThreshold s"
  by (simp_all add: checkComplete_def Let_def)

lemma checkComplete_calls:
  "calls (checkComplete s) =
     (if 2 \<le> completed s
      then calls s @ [(Null, callback_data (lowThreshold s) (highThreshold s) (results s))]
      else calls s)"
  by (simp add: checkComplete_def Let_def)

text \<open>Every handler stores what \<open>outcome\<close> says and then counts.\<close>

lemma deliver_outcome:
  "deliver h fe s =
     checkComplete
       (case outcome h (fst fe) (snd fe) of
          None \<Rightarrow> s
        | Some x \<Rightarrow> s\<lparr>results := store (fst fe) x (results s)\<rparr>)"
  by (cases "fst fe"; cases "snd fe")
    (simp_all add: deliver_def xhr1_onload_def xhr2_onload_def xhr3_onload_def xhr_onerror_def
      outcome_def feed_try_def store_def split: option.split)

lemma deliver_fields:
  "completed (deliver h fe s) = completed s + 1"
  "lowThreshold (deliver h fe s) = lowThreshold s"
  "highThreshold (deliver h fe s) = highThreshold s"
  by (simp_all add: deliver_outcome checkComplete_fields split: option.split)

lemma deliver_results:
  "results (deliver h fe s) =
     (case outcome h (fst fe) (snd fe) of
        None \<Rightarrow> results s
      | Some x \<Rightarrow> store (fst fe) x (results s))"
  by (simp add: deliver_outcome checkComplete_fields split: option.split)

lemma deliver_calls:
  "calls (deliver h fe s) =
     (if 2 \<le> completed s
      then calls s @
           [(Null, callback_data (lowThreshold s) (highThreshold s) (results (deliver h fe s)))]
      else calls s)"
  by (simp add: deliver_outcome checkComplete_calls checkComplete_fields split: option.split)

lemma run_fields:
  "completed (fold (deliver h) evs s) = completed s + length evs"
  "lowThreshold (fold (deliver h) evs s) = lowThreshold s"
  "highThreshold (fold (deliver h) evs s) = highThreshold s"
  by (induction evs arbitrary: s) (simp_all add: deliver_fields)

lemma run_calls_early:
  "completed s + length evs < 3 \<Longrightarrow> calls (fold (deliver h) evs s) = calls s"
  by (induction evs arbitrary: s) (simp_all add: deliver_fields deliver_calls)

lemma run_calls_length:
  "length (calls (fold (deliver h) evs s)) =
     length (calls s) + ((completed s + length evs - 2) - (completed s - 2))"
proof (induction evs arbitrary: s)
  case Nil
  show ?case by simp
next
  case (Cons e evs)
  show ?case
    by (simp add: Cons.IH deliver_fields deliver_calls)
qed

lemma stored_store: "stored f (store g x r) = (if f = g then Some x else stored f r)"
  by (cases f; cases g) (simp_all add: stored_def store_def)

lemma run_stored:
  "distinct (map fst evs) \<Longrightarrow>
   stored f (results (fold (deliver h) evs s)) =
     (case map_of evs f of
        None \<Rightarrow> stored f (results s)
      | Some e \<Rightarrow> (case outcome h f e of None \<Rightarrow> stored f (results s) | Some x \<Rightarrow> Some x))"
proof (induction evs arbitrary: s)
  case Nil
  show ?case by simp
next
  case (Cons fe evs)
  obtain g e where fe: "fe = (g, e)" by (cases fe)
  from Cons.prems have d: "distinct (map fst evs)" and g: "g \<notin> fst ` set evs"
    by (simp_all add: fe)
  show ?case
  proof (cases "g = f")
    case True
    with g have none: "map_of evs f = None"
      by (simp add: map_of_eq_None_iff)
    have fe': "fe = (f, e)"
      using fe True by simp
    show ?thesis
      by (simp add: Cons.IH [OF d] none fe' deliver_results stored_store split: option.split)
  next
    case False
    then have "f \<noteq> g" by auto
    then show ?thesis
      by (simp add: Cons.IH [OF d] fe deliver_results stored_store split: option.split)
  qed
qed

lemma results_eqI:
  "(\<And>f. stored f r = stored f r') \<Longrightarrow> (r :: source_results) = r'"
proof -
  assume a: "\<And>f. stored f r = stored f r'"
  from a [of OXR] a [of ECB] a [of Alt] show ?thesis
    by (simp add: stored_def)
qed

lemma three_feeds:
  assumes "set evs = {(OXR, e1), (ECB, e2), (Alt, e3)}" and "length evs = 3"
  shows "distinct (map fst evs)"
proof -
  have "set (map fst evs) = {OXR, ECB, Alt}"
    using assms(1) by simp
  then have "card (set (map fst evs)) = 3"
    by simp
  then show ?thesis
    using assms(2) by (simp add: card_distinct)
qed

lemma feed_cases: "f = OXR \<or> f = ECB \<or> f = Alt"
  by (cases f) simp_all

lemma distinct_feeds_le3: "distinct (fs :: feed list) \<Longrightarrow> length fs \<le> 3"
proof -
  assume d: "distinct fs"
  have "set fs \<subseteq> {OXR, ECB, Alt}"
    using feed_cases by auto
  then have "card (set fs) \<le> card {OXR, ECB, Alt}"
    by (intro card_mono) simp_all
  then show ?thesis
    using d by (simp add: distinct_card)
qed

text \<open>
  The join: once the three events have arrived, in any order, the callback has been
  called once, with no error and with the data built from what each handler stored.
\<close>

lemma fetchCurrency_joined:
  assumes evs: "set evs = {(OXR, e1), (ECB, e2), (Alt, e3)}" and len: "length evs = 3"
  shows "calls (fetchCurrency h th evs) =
           [(Null, callback_data (lowThreshold (fetchCurrency_init th))
                     (highThreshold (fetchCurrency_init th))
                     \<lparr> oxr = outcome h OXR e1, ecb = outcome h ECB e2, alt = outcome h Alt e3 \<rparr>)]"
proof -
  let ?s0 = "fetchCurrency_init th"
  have d: "distinct (map fst evs)"
    using three_feeds [OF evs len] .
  have m: "map_of evs OXR = Some e1" "map_of evs ECB = Some e2" "map_of evs Alt = Some e3"
    using d evs by (simp_all add: map_of_is_SomeI)
  have init: "results ?s0 = \<lparr> oxr = None, ecb = None, alt = None \<rparr>"
    "completed ?s0 = 0" "calls ?s0 = []"
    by (simp_all add: fetchCurrency_init_def)
  have r: "results (fold (deliver h) evs ?s0) =
             \<lparr> oxr = outcome h OXR e1, ecb = outcome h ECB e2, alt = outcome h Alt e3 \<rparr>"
  proof (rule results_eqI)
    fix f
    have "stored f (results (fold (deliver h) evs ?s0)) =
            (case f of OXR \<Rightarrow> outcome h OXR e1 | ECB \<Rightarrow> outcome h ECB e2
             | Alt \<Rightarrow> outcome h Alt e3)"
      by (cases f) (simp_all add: run_stored [OF d] m init(1) stored_def [of _ "\<lparr>oxr = None, ecb = None, alt = None\<rparr>"] split: option.split)
    then show "stored f (results (fold (deliver h) evs ?s0)) =
            stored f \<lparr> oxr = outcome h OXR e1, ecb = outcome h ECB e2, alt = outcome h Alt e3 \<rparr>"
      by (cases f) (simp_all add: stored_def [of _ "\<lparr>oxr = outcome h OXR e1, ecb = outcome h ECB e2, alt = outcome h Alt e3\<rparr>"])
  qed
  obtain xs x where split: "evs = xs @ [x]" and lxs: "length xs = 2"
    using len by (cases evs rule: rev_cases) simp_all
  have early: "calls (fold (deliver h) xs ?s0) = []"
    using run_calls_early [of ?s0 xs h] lxs init by simp
  have c: "completed (fold (deliver h) xs ?s0) = 2"
    by (simp add: run_fields init lxs)
  have "calls (fold (deliver h) evs ?s0) =
          [(Null, callback_data (lowThreshold ?s0) (highThreshold ?s0)
                    (results (fold (deliver h) evs ?s0)))]"
    by (simp add: split deliver_calls c early run_fields(2,3))
  then show ?thesis
    by (simp add: fetchCurrency_def r)
qed

lemma example_outcomes:
  "outcome example_host Alt OnError = None"
  "outcome example_host ECB (OnLoad 200 (Some ecb_body)) =
     Some (WithDate ''1.05000'' (Str ''2024-01-15''))"
  "outcome example_host OXR (OnLoad 500 None) = None"
  "outcome example_host ECB (OnLoad 200 None) = None"
  "outcome example_host OXR OnError = None"
  "outcome example_host Alt (OnLoad 404 (Some Null)) = None"
  by code_simp+

lemma ecb_only_events:
  "set ecb_only = {(OXR, OnLoad 500 None), (ECB, OnLoad 200 (Some ecb_body)), (Alt, OnError)}"
  "length ecb_only = 3"
  by (auto simp: ecb_only_def)

lemma all_failed_events:
  "set all_failed = {(OXR, OnError), (ECB, OnLoad 200 None), (Alt, OnLoad 404 (Some Null))}"
  "length all_failed = 3"
  by (auto simp: all_failed_def)

text \<open>
  C1. The displayed rate and the source label follow a fixed precedence: whatever the three
  requests deliver and in whatever order, the callback gets the OXR rate with the label OXR
  if the OXR handler stored a result; otherwise the ECB rate with the label ECB if the ECB
  handler did; otherwise the Alt rate with the label Alt if the Alt handler did.
\<close>

theorem fetchCurrency_precedence:
  assumes "set evs = {(OXR, e1), (ECB, e2), (Alt, e3)}" and "length evs = 3"
  shows "\<exists>d. calls (fetchCurrency h th evs) = [(Null, d)] \<and>
           (\<forall>x. outcome h OXR e1 = Some x \<longrightarrow> rate d = src_rate x \<and> source d = ''OXR'') \<and>
           (\<forall>y. outcome h OXR e1 = None \<and> outcome h ECB e2 = Some y \<longrightarrow>
                  rate d = src_rate y \<and> source d = ''ECB'') \<and>
           (\<forall>z. outcome h OXR e1 = None \<and> outcome h ECB e2 = None \<and> outcome h Alt e3 = Some z \<longrightarrow>
                  rate d = src_rate z \<and> source d = ''Alt'')"
  by (simp add: fetchCurrency_joined [OF assms] callback_data_def displayRate_def sourceLabel_def)

theorem fetchCurrency_precedence_witness:
  "\<exists>d. calls (fetchCurrency example_host no_thresholds ecb_only) = [(Null, d)] \<and>
       rate d = ''1.05000'' \<and> source d = ''ECB''"
  using fetchCurrency_precedence [OF ecb_only_events, of example_host no_thresholds]
  by (auto simp: example_outcomes)

text \<open>
  C2. When all three sources fail, the callback is still called, with \<^verbatim>\<open>null\<close> as the error
  and the placeholder: the rate \<^verbatim>\<open>'0.00000'\<close> and an empty source label.
\<close>

theorem fetchCurrency_all_failed:
  assumes "set evs = {(OXR, e1), (ECB, e2), (Alt, e3)}" and "length evs = 3"
    and "fails h (OXR, e1)" and "fails h (ECB, e2)" and "fails h (Alt, e3)"
  shows "\<exists>d. calls (fetchCurrency h th evs) = [(Null, d)] \<and>
           rate d = ''0.00000'' \<and> source d = []"
  using assms(3-5)
  by (simp add: fetchCurrency_joined [OF assms(1,2)] callback_data_def displayRate_def
      sourceLabel_def fails_def)

theorem fetchCurrency_all_failed_witness:
  "fails example_host (OXR, OnError) \<and> fails example_host (ECB, OnLoad 200 None) \<and>
   fails example_host (Alt, OnLoad 404 (Some Null)) \<and>
   (\<exists>d. calls (fetchCurrency example_host no_thresholds all_failed) = [(Null, d)] \<and>
        rate d = ''0.00000'' \<and> source d = [])"
proof -
  have f: "fails example_host (OXR, OnError)" "fails example_host (ECB, OnLoad 200 None)"
    "fails example_host (Alt, OnLoad 404 (Some Null))"
    by (simp_all add: fails_def example_outcomes)
  from fetchCurrency_all_failed [OF all_failed_events f, of no_thresholds] f
  show ?thesis by simp
qed




text \<open>
  C4. The callback is called only when the counter reaches three. A request delivers one
  event, so the sources of the events of a call are distinct: while fewer than three events
  have arrived the callback has not been called, and once the three have arrived it has been
  called exactly once; the counter is the number of events.
\<close>

theorem fetchCurrency_callback_once:
  assumes "distinct (map fst evs)"
  shows "completed (fetchCurrency h th evs) = length evs \<and>
         length evs \<le> 3 \<and>
         length (calls (fetchCurrency h th evs)) = (if length evs = 3 then 1 else 0) \<and>
         (length evs < 3 \<longrightarrow> calls (fetchCurrency h th evs) = [])"
proof -
  have le: "length evs \<le> 3"
    using distinct_feeds_le3 [OF assms] by simp
  have init: "completed (fetchCurrency_init th) = 0" "calls (fetchCurrency_init th) = []"
    by (simp_all add: fetchCurrency_init_def)
  have "length (calls (fetchCurrency h th evs)) = length evs - 2"
    using run_calls_length [of h evs "fetchCurrency_init th"]
    by (simp add: fetchCurrency_def init)
  moreover have "length evs < 3 \<longrightarrow> calls (fetchCurrency h th evs) = []"
    using run_calls_early [of "fetchCurrency_init th" evs h]
    by (simp add: fetchCurrency_def init)
  moreover have "completed (fetchCurrency h th evs) = length evs"
    by (simp add: fetchCurrency_def run_fields init)
  ultimately show ?thesis
    using le by auto
qed

theorem fetchCurrency_callback_once_witness:
  "distinct (map fst ecb_only) \<and> distinct (map fst (take 2 ecb_only)) \<and>
   length (calls (fetchCurrency example_host no_thresholds ecb_only)) = 1 \<and>
   calls (fetchCurrency example_host no_thresholds (take 2 ecb_only)) = []"
proof -
  have d: "distinct (map fst ecb_only)" "distinct (map fst (take 2 ecb_only))"
    by (simp_all add: ecb_only_def)
  have l: "length ecb_only = 3" "length (take 2 ecb_only) = 2"
    by (simp_all add: ecb_only_def)
  from fetchCurrency_callback_once [OF d(1), of example_host no_thresholds]
    fetchCurrency_callback_once [OF d(2), of example_host no_thresholds] d l
  show ?thesis by simp
qed

subsection \<open>Rounding to a double\<close>

lemma pow2_powi: "pow2 k = 2 powi k"
  by (cases "0 \<le> k") (simp_all add: pow2_def power_int_def field_simps)

lemma pow2_pos: "0 < pow2 k"
  by (simp add: pow2_powi)

lemma pow2_add: "pow2 (a + b) = pow2 a * pow2 b"
  by (simp add: pow2_powi power_int_add)

lemma pow2_nat: "pow2 (int n) = 2 ^ n"
  by (simp add: pow2_powi)

lemma pow2_mono: "a \<le> b \<Longrightarrow> pow2 a \<le> pow2 b"
  by (simp add: pow2_powi power_int_increasing)

lemma pow2_Suc: "pow2 (k + 1) = 2 * pow2 k"
  by (simp add: pow2_powi power_int_add)

lemma log2_floor_bounds:
  "0 < n \<Longrightarrow> 2 ^ log2_floor n \<le> n \<and> n < 2 * 2 ^ log2_floor n"
proof (induction n rule: log2_floor.induct)
  case (1 n)
  show ?case
  proof (cases "n < 2")
    case True
    with "1.prems" have "n = 1" by simp
    then show ?thesis by (simp add: log2_floor.simps)
  next
    case False
    then have h: "0 < n div 2" by simp
    from "1.IH" [OF False h]
    have "2 ^ log2_floor (n div 2) \<le> n div 2" "n div 2 < 2 * 2 ^ log2_floor (n div 2)"
      by simp_all
    then have "2 * 2 ^ log2_floor (n div 2) \<le> n" "n < 2 * (2 * 2 ^ log2_floor (n div 2))"
      by linarith+
    then show ?thesis
      using False by (subst (1 2) log2_floor.simps) simp
  qed
qed

lemma binade_bounds:
  assumes "0 < p" and "0 < q"
  shows "pow2 (binade p q) \<le> of_int p / of_int q \<and> of_int p / of_int q < pow2 (binade p q + 1)"
proof -
  define a where "a = log2_floor (nat p)"
  define b where "b = log2_floor (nat q)"
  define k where "k = int a - int b"
  define x :: rat where "x = of_int p / of_int q"
  have pa: "(2::rat) ^ a \<le> of_int p" "(of_int p :: rat) < 2 * 2 ^ a"
  proof -
    from log2_floor_bounds [of "nat p"] assms(1)
    have "2 ^ a \<le> nat p" "nat p < 2 * 2 ^ a" by (simp_all add: a_def)
    then have "int (2 ^ a) \<le> p" "p < int (2 * 2 ^ a)" using assms(1) by linarith+
    then have "(of_int (int (2 ^ a)) :: rat) \<le> of_int p" "(of_int p :: rat) < of_int (int (2 * 2 ^ a))"
      by (simp_all only: of_int_le_iff of_int_less_iff)
    then show "(2::rat) ^ a \<le> of_int p" "(of_int p :: rat) < 2 * 2 ^ a" by simp_all
  qed
  have qb: "(2::rat) ^ b \<le> of_int q" "(of_int q :: rat) < 2 * 2 ^ b"
  proof -
    from log2_floor_bounds [of "nat q"] assms(2)
    have "2 ^ b \<le> nat q" "nat q < 2 * 2 ^ b" by (simp_all add: b_def)
    then have "int (2 ^ b) \<le> q" "q < int (2 * 2 ^ b)" using assms(2) by linarith+
    then have "(of_int (int (2 ^ b)) :: rat) \<le> of_int q" "(of_int q :: rat) < of_int (int (2 * 2 ^ b))"
      by (simp_all only: of_int_le_iff of_int_less_iff)
    then show "(2::rat) ^ b \<le> of_int q" "(of_int q :: rat) < 2 * 2 ^ b" by simp_all
  qed
  have qpos: "(0::rat) < of_int q" using assms(2) by simp
  have k: "pow2 k = 2 ^ a / 2 ^ b"
    by (simp add: k_def pow2_powi power_int_diff)
  have up: "x < 2 * pow2 k"
  proof -
    have "x < 2 * 2 ^ a / of_int q"
      unfolding x_def using pa(2) qpos by (simp add: divide_strict_right_mono)
    also have "\<dots> \<le> 2 * 2 ^ a / 2 ^ b"
      using qb(1) by (simp add: frac_le)
    finally show ?thesis by (simp add: k)
  qed
  have low: "pow2 k / 2 < x"
  proof -
    have "pow2 k / 2 = 2 ^ a / (2 * 2 ^ b)" by (simp add: k)
    also have "\<dots> < 2 ^ a / of_int q"
      using qb(2) qpos by (simp add: frac_less2)
    also have "\<dots> \<le> x"
      unfolding x_def using pa(1) qpos by (simp add: divide_right_mono)
    finally show ?thesis .
  qed
  have test: "(if 0 \<le> k then q * 2 ^ nat k \<le> p else q \<le> p * 2 ^ nat (- k)) \<longleftrightarrow> pow2 k \<le> x"
  proof (cases "0 \<le> k")
    case True
    have "(q * 2 ^ nat k \<le> p) \<longleftrightarrow> ((of_int (q * 2 ^ nat k) :: rat) \<le> of_int p)"
      by (simp only: of_int_le_iff)
    also have "\<dots> \<longleftrightarrow> (of_int q * pow2 k \<le> (of_int p :: rat))"
      using True by (simp add: pow2_def)
    also have "\<dots> \<longleftrightarrow> pow2 k \<le> x"
      unfolding x_def using qpos by (simp add: pos_le_divide_eq mult.commute)
    finally show ?thesis using True by simp
  next
    case False
    have "(q \<le> p * 2 ^ nat (- k)) \<longleftrightarrow> ((of_int q :: rat) \<le> of_int (p * 2 ^ nat (- k)))"
      by (simp only: of_int_le_iff)
    also have "\<dots> \<longleftrightarrow> ((of_int q :: rat) \<le> of_int p / pow2 k)"
      using False by (simp add: pow2_def)
    also have "\<dots> \<longleftrightarrow> (of_int q * pow2 k \<le> (of_int p :: rat))"
      using pow2_pos [of k] by (simp add: pos_le_divide_eq)
    also have "\<dots> \<longleftrightarrow> pow2 k \<le> x"
      unfolding x_def using qpos by (simp add: pos_le_divide_eq mult.commute)
    finally show ?thesis using False by simp
  qed
  have half: "pow2 (k - 1) = pow2 k / 2"
    using pow2_Suc [of "k - 1"] by simp
  have bd: "binade p q =
      (if (if 0 \<le> k then q * 2 ^ nat k \<le> p else q \<le> p * 2 ^ nat (- k)) then k else k - 1)"
    unfolding binade_def k_def a_def b_def Let_def ..
  show ?thesis
  proof (cases "pow2 k \<le> x")
    case True
    then have "binade p q = k"
      unfolding bd test by simp
    then show ?thesis
      using True up by (simp add: pow2_Suc x_def)
  next
    case False
    then have e: "binade p q = k - 1"
      unfolding bd test by simp
    have "pow2 (k - 1) \<le> x" "x < pow2 k"
      using False low unfolding half by linarith+
    then show ?thesis
      unfolding e x_def by simp
  qed
qed

lemma binade_unique:
  assumes "0 < p" and "0 < q"
    and "pow2 e \<le> of_int p / of_int q" and "of_int p / of_int q < pow2 (e + 1)"
  shows "binade p q = e"
proof (rule ccontr)
  assume ne: "binade p q \<noteq> e"
  note b = binade_bounds [OF assms(1,2)]
  show False
  proof (cases "binade p q < e")
    case True
    then have "pow2 (binade p q + 1) \<le> pow2 e" by (simp add: pow2_mono)
    then show False using b assms(3) by linarith
  next
    case False
    with ne have "pow2 (e + 1) \<le> pow2 (binade p q)" by (simp add: pow2_mono)
    then show False using b assms(4) by linarith
  qed
qed


lemma round_even_div_nearest:
  assumes d: "0 < d" and near: "\<bar>of_int n / of_int d - of_int m\<bar> < (1 / 2 :: rat)"
  shows "round_even_div n d = m"
proof -
  define f where "f = n div d"
  define r where "r = n mod d"
  define j where "j = f - m"
  have n: "n = d * f + r"
    by (simp add: f_def r_def)
  have r: "0 \<le> r" "r < d"
    using d by (simp_all add: r_def)
  have dpos: "(0::rat) < of_int d"
    using d by simp
  have "(of_int n :: rat) / of_int d - of_int m = of_int (n - m * d) / of_int d"
    using dpos by (simp add: field_simps)
  then have "\<bar>(of_int (n - m * d) :: rat)\<bar> / of_int d < 1 / 2"
    using near dpos by (simp add: abs_divide)
  then have "2 * \<bar>(of_int (n - m * d) :: rat)\<bar> < of_int d"
    using dpos by (simp add: field_simps)
  then have "(of_int (2 * \<bar>n - m * d\<bar>) :: rat) < of_int d"
    by simp
  then have close: "2 * \<bar>n - m * d\<bar> < d"
    by (simp only: of_int_less_iff)
  define t where "t = d * j"
  have nm: "n - m * d = t + r"
    by (simp add: n j_def t_def algebra_simps)
  have close': "2 * \<bar>t + r\<bar> < d"
    using close unfolding nm .
  have j: "j = 0 \<or> j = - 1"
  proof (rule ccontr)
    assume "\<not> (j = 0 \<or> j = - 1)"
    then consider "1 \<le> j" | "j \<le> - 2" by linarith
    then show False
    proof cases
      case 1
      then have "d * 1 \<le> d * j" using d by (intro mult_left_mono) simp_all
      then have "d \<le> t" by (simp add: t_def)
      then show False using close' r d by arith
    next
      case 2
      then have "d * j \<le> d * (- 2)" using d by (intro mult_left_mono) simp_all
      then have "t \<le> - 2 * d" by (simp add: t_def)
      then show False using close' r d by arith
    qed
  qed
  have red: "round_even_div n d =
      (if 2 * r < d then f else if d < 2 * r then f + 1 else if even f then f else f + 1)"
    unfolding round_even_div_def f_def r_def Let_def ..
  from j show ?thesis
  proof
    assume j0: "j = 0"
    then have "t = 0" by (simp add: t_def)
    then have "2 * r < d" using close' r by arith
    moreover have "f = m" using j0 by (simp add: j_def)
    ultimately show ?thesis unfolding red by simp
  next
    assume j1: "j = - 1"
    then have "t = - d" by (simp add: t_def)
    then have "d < 2 * r" using close' r by arith
    moreover have "f + 1 = m" using j1 by (simp add: j_def)
    ultimately show ?thesis unfolding red by simp
  qed
qed

text \<open>
  In the normal range \<open>to_double\<close> is rounding to nearest: when \<open>x\<close> lies in the binade of
  \<open>e\<close> and \<open>m\<close> is the integer nearest to \<open>x / 2\<^sup>e\<^sup>-\<^sup>5\<^sup>2\<close>, the double is \<open>m * 2\<^sup>e\<^sup>-\<^sup>5\<^sup>2\<close>.
\<close>

lemma to_double_nearest:
  assumes pos: "0 < x" and lo: "pow2 e \<le> x" and hi: "x < pow2 (e + 1)"
    and e: "- 1022 \<le> e" "e \<le> 1023" and fin: "e < 1023 \<or> m < 2 ^ 53"
    and near: "\<bar>x / pow2 (e - 52) - of_int m\<bar> < 1 / 2"
  shows "to_double x = Fin (of_int m * pow2 (e - 52))"
proof -
  obtain p q where pq: "quotient_of x = (p, q)"
    by (cases "quotient_of x")
  have q: "0 < q"
    using quotient_of_denom_pos [OF pq] .
  have x: "x = of_int p / of_int q"
    using quotient_of_div [OF pq] .
  have p: "0 < p"
    using pos q unfolding x by (simp add: zero_less_divide_iff)
  have b: "binade p q = e"
    using binade_unique [OF p q] lo hi unfolding x by simp
  have m: "(if 52 \<le> e then round_even_div p (q * 2 ^ nat (e - 52))
            else round_even_div (p * 2 ^ nat (52 - e)) q) = m"
  proof (cases "52 \<le> e")
    case True
    have "(of_int p :: rat) / of_int (q * 2 ^ nat (e - 52)) = x / pow2 (e - 52)"
      using True by (simp add: x pow2_def)
    then have "round_even_div p (q * 2 ^ nat (e - 52)) = m"
      using near q by (intro round_even_div_nearest) simp_all
    then show ?thesis using True by simp
  next
    case False
    then have "nat (- (e - 52)) = nat (52 - e)" by simp
    then have "(of_int (p * 2 ^ nat (52 - e)) :: rat) / of_int q = x / pow2 (e - 52)"
      using False by (simp add: x pow2_def)
    then have "round_even_div (p * 2 ^ nat (52 - e)) q = m"
      using near q by (intro round_even_div_nearest) simp_all
    then show ?thesis using False by simp
  qed
  have ap: "\<bar>p\<bar> = p"
    using p by simp
  have mx: "max e (- 1022) = e"
    using e by simp
  have fits: "(1023 < e \<or> (e = 1023 \<and> 2 ^ 53 \<le> m)) = False"
    using e(2) fin by auto
  show ?thesis
    using pos unfolding to_double_def pq fst_conv snd_conv ap b mx Let_def m fits if_False
    by simp
qed

text \<open>Beyond the largest double: what is \<open>2\<^sup>1\<^sup>0\<^sup>2\<^sup>4\<close> or more is \<^verbatim>\<open>Infinity\<close>.\<close>

lemma to_double_overflow:
  assumes big: "pow2 1024 \<le> x"
  shows "to_double x = PInf"
proof -
  have pos: "0 < x"
    using big pow2_pos [of 1024] by linarith
  obtain p q where pq: "quotient_of x = (p, q)"
    by (cases "quotient_of x")
  have q: "0 < q"
    using quotient_of_denom_pos [OF pq] .
  have x: "x = of_int p / of_int q"
    using quotient_of_div [OF pq] .
  have p: "0 < p"
    using pos q unfolding x by (simp add: zero_less_divide_iff)
  have "x < pow2 (binade p q + 1)"
    using binade_bounds [OF p q] unfolding x by simp
  then have "pow2 1024 < pow2 (binade p q + 1)"
    using big by linarith
  then have "\<not> binade p q + 1 \<le> 1024"
    using pow2_mono [of "binade p q + 1" 1024] by linarith
  then have e: "(1023 < max (binade p q) (- 1022) \<or> P) = True" for P
    by simp
  have ap: "\<bar>p\<bar> = p"
    using p by simp
  show ?thesis
    using pos unfolding to_double_def pq fst_conv snd_conv ap Let_def e if_True
    by (simp add: signed_inf_def)
qed

subsection \<open>Weather\<close>

lemma round_half_up_nearest: "\<bar>of_int (round_half_up q) - q\<bar> \<le> 1 / 2"
  unfolding round_half_up_def by linarith

lemma Math_round_Fin: "Math_round (Fin q) = Fin (of_int (round_half_up q))"
  by (simp add: Math_round_def)

lemma round_of_Num: "round_of (Num c) = Some (Math_round (dbl c))"
  by (simp add: round_of_def ToNumber_Num)

lemma fahrenheit_of_Num:
  "fahrenheit_of (Num c) =
     Some (Math_round (dbl_add (dbl_div (dbl_mul (dbl c) (Fin 9)) (Fin 5)) (Fin 32)))"
  by (simp add: fahrenheit_of_def ToNumber_Num)

text \<open>
  The double next below 2.5, written 2.4999999999999996: the product by 9, the quotient by
  5 and the sum with 32 are each rounded, the sum to 36.5, and the Fahrenheit field is 37.
  In exact arithmetic the sum is below 36.5.
\<close>

lemma fahrenheit_near_tie:
  "fahrenheit_of (Num (Fin (5629499534213119 / 2251799813685248))) = Some (Fin 37) \<and>
   round_half_up (5629499534213119 / 2251799813685248 * 9 / 5 + 32) = 36"
proof -
  have d0: "to_double (5629499534213119 / 2251799813685248) =
      Fin (5629499534213119 / 2251799813685248)"
  proof -
    have "to_double (5629499534213119 / 2251799813685248) =
        Fin (of_int 5629499534213119 * pow2 (1 - 52))"
      by (rule to_double_nearest) (simp_all add: pow2_def)
    then show ?thesis by (simp add: pow2_def)
  qed
  have d1: "to_double (5629499534213119 / 2251799813685248 * 9) =
      Fin (6333186975989759 / 281474976710656)"
  proof -
    have "to_double (5629499534213119 / 2251799813685248 * 9) =
        Fin (of_int 6333186975989759 * pow2 (4 - 52))"
      by (rule to_double_nearest) (simp_all add: pow2_def)
    then show ?thesis by (simp add: pow2_def)
  qed
  have d2: "to_double (6333186975989759 / 281474976710656 / 5) =
      Fin (5066549580791807 / 1125899906842624)"
  proof -
    have "to_double (6333186975989759 / 281474976710656 / 5) =
        Fin (of_int 5066549580791807 * pow2 (2 - 52))"
      by (rule to_double_nearest) (simp_all add: pow2_def)
    then show ?thesis by (simp add: pow2_def)
  qed
  have d3: "to_double (5066549580791807 / 1125899906842624 + 32) = Fin (73 / 2)"
  proof -
    have "to_double (5066549580791807 / 1125899906842624 + 32) =
        Fin (of_int 5136918324969472 * pow2 (5 - 52))"
      by (rule to_double_nearest) (simp_all add: pow2_def)
    then show ?thesis by (simp add: pow2_def)
  qed
  have five: "((5::rat) = 0) = False"
    by simp
  have s1: "dbl_mul (dbl (Fin (5629499534213119 / 2251799813685248))) (Fin 9) =
      Fin (6333186975989759 / 281474976710656)"
    unfolding dbl_def jsnum.case d0 dbl_mul_def num_mul.simps d1 ..
  have s2: "dbl_div (Fin (6333186975989759 / 281474976710656)) (Fin 5) =
      Fin (5066549580791807 / 1125899906842624)"
    unfolding dbl_div_def num_div.simps five if_False dbl_def jsnum.case d2 ..
  have s3: "dbl_add (Fin (5066549580791807 / 1125899906842624)) (Fin 32) = Fin (73 / 2)"
    unfolding dbl_add_def num_add.simps dbl_def jsnum.case d3 ..
  have r: "round_half_up (73 / 2) = 37"
    "round_half_up (5629499534213119 / 2251799813685248 * 9 / 5 + 32) = 36"
    by (simp_all add: round_half_up_def floor_eq_iff)
  show ?thesis
    unfolding fahrenheit_of_Num s1 s2 s3 Math_round_Fin r by simp
qed

text \<open>At \<open>10\<^sup>3\<^sup>0\<^sup>8\<close> the product by 9 is beyond the largest double, and the field is \<^verbatim>\<open>Infinity\<close>.\<close>

lemma fahrenheit_overflow: "fahrenheit_of (Num (Fin (10 ^ 308))) = Some PInf"
proof -
  have d0: "to_double (10 ^ 308) = Fin (of_int 5010420900022432 * pow2 (1023 - 52))"
    by (rule to_double_nearest) (simp_all add: pow2_def)
  have d1: "to_double (of_int 5010420900022432 * pow2 (1023 - 52) * 9) = PInf"
    by (rule to_double_overflow) (simp add: pow2_def)
  have s1: "dbl_mul (dbl (Fin (10 ^ 308))) (Fin 9) = PInf"
    unfolding dbl_def jsnum.case d0 dbl_mul_def num_mul.simps d1 ..
  have s2: "dbl_div PInf (Fin 5) = PInf"
    by (simp add: dbl_div_def dbl_def signed_inf_def)
  have s3: "dbl_add PInf (Fin 32) = PInf"
    by (simp add: dbl_add_def dbl_def)
  show ?thesis
    unfolding fahrenheit_of_Num s1 s2 s3 by (simp add: Math_round_def)
qed

lemma forecast_loop_three:
  "forecast_loop h data 1 [] =
     (case forecast_entry h data 1 of
        None \<Rightarrow> None
      | Some e1 \<Rightarrow>
          (case forecast_entry h data 2 of
             None \<Rightarrow> None
           | Some e2 \<Rightarrow>
               (case forecast_entry h data 3 of
                  None \<Rightarrow> None
                | Some e3 \<Rightarrow> Some [e1, e2, e3])))"
proof -
  have stop: "forecast_loop h data 4 acc = Some acc" for acc
    by (subst forecast_loop.simps) simp
  have step: "i \<le> 3 \<Longrightarrow> forecast_loop h data i acc =
      (case forecast_entry h data i of None \<Rightarrow> None
       | Some e \<Rightarrow> forecast_loop h data (i + 1) (acc @ [e]))" for i acc
    by (subst forecast_loop.simps) simp
  have a: "(1::nat) + 1 = 2" "(2::nat) + 1 = 3" "(3::nat) + 1 = 4"
    "(1::nat) \<le> 3" "(2::nat) \<le> 3" "(3::nat) \<le> 3"
    by simp_all
  show ?thesis
    unfolding step [OF a(4)] a(1) step [OF a(5)] a(2) step [OF a(6)] a(3) stop
    by (simp split: option.split)
qed

lemma weather_success:
  assumes "fetchWeather h (WLoad st parsed) = Success p"
  shows "\<exists>data. st = 200 \<and> parsed = Some data \<and> api_error data = Some None \<and>
           build_processed h data = Some p"
  using assms
  by (auto simp: fetchWeather_def weather_onload_def split: if_splits option.splits)

lemma build_processed_parts:
  assumes "build_processed h data = Some p"
  shows "build_current data = Some (current p)"
    and "build_today h data = Some (today p)"
    and "\<exists>e1 e2 e3. forecast p = [e1, e2, e3] \<and> forecast_entry h data 1 = Some e1 \<and>
           forecast_entry h data 2 = Some e2 \<and> forecast_entry h data 3 = Some e3"
  using assms
  unfolding build_processed_def forecast_loop_three
  by (auto simp: bind_eq_Some_conv split: option.splits)

lemma forecast_entry_at:
  assumes "build_processed h data = Some p" and "k < 3"
  shows "forecast_entry h data (k + 1) = Some (forecast p ! k)"
proof -
  obtain e1 e2 e3 where f: "forecast p = [e1, e2, e3]"
    and e: "forecast_entry h data 1 = Some e1" "forecast_entry h data 2 = Some e2"
      "forecast_entry h data 3 = Some e3"
    using build_processed_parts(3) [OF assms(1)] by blast
  from assms(2) consider "k = 0" | "k = 1" | "k = 2" by linarith
  then show ?thesis
  proof cases
    case 1
    then show ?thesis using e(1) f by simp
  next
    case 2
    then show ?thesis using e(2) f by (simp add: numeral_2_eq_2)
  next
    case 3
    then show ?thesis using e(3) f by simp
  qed
qed

lemma forecast_length:
  assumes "build_processed h data = Some p"
  shows "length (forecast p) = 3"
  using build_processed_parts(3) [OF assms] by auto

lemma build_current_temps:
  assumes "build_current data = Some c"
  shows "\<exists>t a. current_field data ''temperature_2m'' = Some t \<and>
           current_field data ''apparent_temperature'' = Some a \<and>
           round_of t = Some (tempC c) \<and> fahrenheit_of t = Some (tempF c) \<and>
           round_of a = Some (feelsLikeC c) \<and> fahrenheit_of a = Some (feelsLikeF c)"
  using assms by (auto simp: build_current_def bind_eq_Some_conv)

lemma build_today_temps:
  assumes "build_today h data = Some t"
  shows "\<exists>mx mn sr ss. daily_at data ''temperature_2m_max'' 0 = Some mx \<and>
           daily_at data ''temperature_2m_min'' 0 = Some mn \<and>
           daily_at data ''sunrise'' 0 = Some sr \<and> daily_at data ''sunset'' 0 = Some ss \<and>
           round_of mx = Some (highC t) \<and> fahrenheit_of mx = Some (highF t) \<and>
           round_of mn = Some (lowC t) \<and> fahrenheit_of mn = Some (lowF t) \<and>
           newDate h sr = Some (sunrise t) \<and> newDate h ss = Some (sunset t)"
  using assms by (auto simp: build_today_def bind_eq_Some_conv)

lemma build_today_rain:
  assumes "build_today h data = Some t"
  shows "\<exists>pp. daily_at data ''precipitation_probability_max'' 0 = Some pp \<and>
           rainChance t = js_or pp (Num (Fin 0))"
  using assms by (auto simp: build_today_def bind_eq_Some_conv)

lemma forecast_entry_temps:
  assumes "forecast_entry h data i = Some e"
  shows "\<exists>mx mn. daily_at data ''temperature_2m_max'' i = Some mx \<and>
           daily_at data ''temperature_2m_min'' i = Some mn \<and>
           round_of mx = Some (highC e) \<and> fahrenheit_of mx = Some (highF e) \<and>
           round_of mn = Some (lowC e) \<and> fahrenheit_of mn = Some (lowF e)"
  using assms by (auto simp: forecast_entry_def bind_eq_Some_conv)

lemma forecast_entry_rain:
  assumes "forecast_entry h data i = Some e"
  shows "\<exists>pp. daily_at data ''precipitation_probability_max'' i = Some pp \<and>
           rainChance e = js_or pp (Num (Fin 0))"
  using assms by (auto simp: forecast_entry_def bind_eq_Some_conv)


lemma weather_example:
  "fetchWeather example_host (WLoad 200 (Some weather_body)) = Success weather_shown"
  by code_simp

lemma weather_example_fields:
  "current_field weather_body ''temperature_2m'' = Some (Num (Fin (25 / 2)))"
  "daily_at weather_body ''temperature_2m_min'' 1 = Some (Num (Fin (- 5)))"
  by code_simp+

text \<open>
  C7. A successful weather response is reshaped into a record of three parts. The current
  conditions and today's summary (with sunrise and sunset) hold, for every temperature \<open>v\<close>
  read from the body, \<^verbatim>\<open>Math.round(v)\<close> as the Celsius field and \<^verbatim>\<open>Math.round(v * 9/5 + 32)\<close> as
  the Fahrenheit field; the forecast has exactly three entries, built the same way from the
  daily indices 1, 2 and 3. On a number, the Celsius field is \<^verbatim>\<open>Math.round\<close> of its double,
  and the Fahrenheit field is \<^verbatim>\<open>Math.round\<close> of the product by 9, the quotient by 5 and the
  sum with 32 as double arithmetic computes them, each rounded to a double; \<^verbatim>\<open>Math.round\<close>
  of a finite \<open>q\<close> is an integer at distance at most one half from \<open>q\<close>.
\<close>

theorem fetchWeather_reshape:
  assumes "fetchWeather h (WLoad st parsed) = Success p"
  shows "(\<exists>data. parsed = Some data \<and>
            (\<exists>t a. current_field data ''temperature_2m'' = Some t \<and>
                   current_field data ''apparent_temperature'' = Some a \<and>
                   round_of t = Some (tempC (current p)) \<and>
                   fahrenheit_of t = Some (tempF (current p)) \<and>
                   round_of a = Some (feelsLikeC (current p)) \<and>
                   fahrenheit_of a = Some (feelsLikeF (current p))) \<and>
            (\<exists>mx mn sr ss. daily_at data ''temperature_2m_max'' 0 = Some mx \<and>
                   daily_at data ''temperature_2m_min'' 0 = Some mn \<and>
                   daily_at data ''sunrise'' 0 = Some sr \<and>
                   daily_at data ''sunset'' 0 = Some ss \<and>
                   round_of mx = Some (highC (today p)) \<and>
                   fahrenheit_of mx = Some (highF (today p)) \<and>
                   round_of mn = Some (lowC (today p)) \<and>
                   fahrenheit_of mn = Some (lowF (today p)) \<and>
                   newDate h sr = Some (sunrise (today p)) \<and>
                   newDate h ss = Some (sunset (today p))) \<and>
            length (forecast p) = 3 \<and>
            (\<forall>k<3. \<exists>mx mn. daily_at data ''temperature_2m_max'' (k + 1) = Some mx \<and>
                   daily_at data ''temperature_2m_min'' (k + 1) = Some mn \<and>
                   round_of mx = Some (highC (forecast p ! k)) \<and>
                   fahrenheit_of mx = Some (highF (forecast p ! k)) \<and>
                   round_of mn = Some (lowC (forecast p ! k)) \<and>
                   fahrenheit_of mn = Some (lowF (forecast p ! k)))) \<and>
         round_of (Num c) = Some (Math_round (dbl c)) \<and>
         fahrenheit_of (Num c) =
           Some (Math_round (dbl_add (dbl_div (dbl_mul (dbl c) (Fin 9)) (Fin 5)) (Fin 32))) \<and>
         Math_round (Fin q) = Fin (of_int (round_half_up q)) \<and>
         \<bar>of_int (round_half_up q) - q\<bar> \<le> 1 / 2"
proof -
  obtain data where data: "parsed = Some data" and b: "build_processed h data = Some p"
    using weather_success [OF assms] by blast
  note cur = build_current_temps [OF build_processed_parts(1) [OF b]]
  note tod = build_today_temps [OF build_processed_parts(2) [OF b]]
  have fc: "\<forall>k<3. \<exists>mx mn. daily_at data ''temperature_2m_max'' (k + 1) = Some mx \<and>
                   daily_at data ''temperature_2m_min'' (k + 1) = Some mn \<and>
                   round_of mx = Some (highC (forecast p ! k)) \<and>
                   fahrenheit_of mx = Some (highF (forecast p ! k)) \<and>
                   round_of mn = Some (lowC (forecast p ! k)) \<and>
                   fahrenheit_of mn = Some (lowF (forecast p ! k))"
    using forecast_entry_temps [OF forecast_entry_at [OF b]] by blast
  show ?thesis
    using data cur tod fc forecast_length [OF b] round_of_Num [of c] fahrenheit_of_Num [of c]
      Math_round_Fin [of q] round_half_up_nearest [of q]
    by blast
qed

theorem fetchWeather_reshape_witness:
  "fetchWeather example_host (WLoad 200 (Some weather_body)) = Success weather_shown \<and>
   length (forecast weather_shown) = 3 \<and>
   round_of (Num (Fin (25 / 2))) = Some (Fin 13) \<and>
   fahrenheit_of (Num (Fin (25 / 2))) = Some (Fin 55) \<and>
   round_of (Num (Fin (- 5))) = Some (Fin (- 5)) \<and>
   fahrenheit_of (Num (Fin (- 5))) = Some (Fin 23)"
proof -
  note w = fetchWeather_reshape [OF weather_example, of "Fin 0" 0]
  have v: "tempC (current weather_shown) = Fin 13" "tempF (current weather_shown) = Fin 55"
    "lowC (forecast weather_shown ! 0) = Fin (- 5)" "lowF (forecast weather_shown ! 0) = Fin 23"
    by (simp_all add: weather_shown_def)
  have l: "length (forecast weather_shown) = 3"
    using w by blast
  have t: "round_of (Num (Fin (25 / 2))) = Some (Fin 13) \<and>
           fahrenheit_of (Num (Fin (25 / 2))) = Some (Fin 55)"
    using w weather_example_fields(1) v(1,2) by auto
  have "(0::nat) < 3" by simp
  then have "\<exists>mx mn. daily_at weather_body ''temperature_2m_max'' (0 + 1) = Some mx \<and>
      daily_at weather_body ''temperature_2m_min'' (0 + 1) = Some mn \<and>
      round_of mx = Some (highC (forecast weather_shown ! 0)) \<and>
      fahrenheit_of mx = Some (highF (forecast weather_shown ! 0)) \<and>
      round_of mn = Some (lowC (forecast weather_shown ! 0)) \<and>
      fahrenheit_of mn = Some (lowF (forecast weather_shown ! 0))"
    using w by blast
  then have m: "round_of (Num (Fin (- 5))) = Some (Fin (- 5)) \<and>
           fahrenheit_of (Num (Fin (- 5))) = Some (Fin 23)"
    using weather_example_fields(2) v(3,4) by auto
  from weather_example l t m show ?thesis by blast
qed

text \<open>
  C8. Missing fields are defaulted. In a successful weather response, where the entry of
  \<^verbatim>\<open>precipitation_probability_max\<close> for today or for a forecast day is falsy (an index past
  the end of the array reads as \<^verbatim>\<open>undefined\<close>, which is falsy), \<^verbatim>\<open>rainChance\<close> is 0, and
  otherwise it is the entry. In \<^verbatim>\<open>fetchCurrency\<close>, a threshold that is missing or falsy is
  replaced by 1.1 (low) or 1.2 (high), and the thresholds stay as they are through the call.
\<close>

theorem missing_fields_defaulted:
  "(fetchWeather h (WLoad st parsed) = Success p \<longrightarrow>
      (\<exists>data. parsed = Some data \<and>
         (\<exists>pp. daily_at data ''precipitation_probability_max'' 0 = Some pp \<and>
               (\<not> truthy pp \<longrightarrow> rainChance (today p) = Num (Fin 0)) \<and>
               (truthy pp \<longrightarrow> rainChance (today p) = pp)) \<and>
         (\<forall>k<3. \<exists>pp. daily_at data ''precipitation_probability_max'' (k + 1) = Some pp \<and>
               (\<not> truthy pp \<longrightarrow> rainChance (forecast p ! k) = Num (Fin 0)) \<and>
               (truthy pp \<longrightarrow> rainChance (forecast p ! k) = pp)))) \<and>
   (length xs \<le> i \<longrightarrow> js_index (Arr xs) i = Some Undefined) \<and>
   \<not> truthy Undefined \<and> \<not> truthy Null \<and> \<not> truthy (Num (Fin 0)) \<and> \<not> truthy (Num NaN) \<and>
   (low th = None \<or> (\<exists>n. low th = Some n \<and> \<not> truthy (Num n)) \<longrightarrow>
      lowThreshold (fetchCurrency_init th) = Fin (11 / 10)) \<and>
   (high th = None \<or> (\<exists>n. high th = Some n \<and> \<not> truthy (Num n)) \<longrightarrow>
      highThreshold (fetchCurrency_init th) = Fin (12 / 10)) \<and>
   lowThreshold (fetchCurrency h' th evs) = lowThreshold (fetchCurrency_init th) \<and>
   highThreshold (fetchCurrency h' th evs) = highThreshold (fetchCurrency_init th)"
proof -
  have w: "\<exists>data. parsed = Some data \<and>
         (\<exists>pp. daily_at data ''precipitation_probability_max'' 0 = Some pp \<and>
               (\<not> truthy pp \<longrightarrow> rainChance (today p) = Num (Fin 0)) \<and>
               (truthy pp \<longrightarrow> rainChance (today p) = pp)) \<and>
         (\<forall>k<3. \<exists>pp. daily_at data ''precipitation_probability_max'' (k + 1) = Some pp \<and>
               (\<not> truthy pp \<longrightarrow> rainChance (forecast p ! k) = Num (Fin 0)) \<and>
               (truthy pp \<longrightarrow> rainChance (forecast p ! k) = pp))"
    if s: "fetchWeather h (WLoad st parsed) = Success p"
  proof -
    obtain data where data: "parsed = Some data" and b: "build_processed h data = Some p"
      using weather_success [OF s] by blast
    obtain pp where pp: "daily_at data ''precipitation_probability_max'' 0 = Some pp"
      "rainChance (today p) = js_or pp (Num (Fin 0))"
      using build_today_rain [OF build_processed_parts(2) [OF b]] by blast
    have "\<forall>k<3. \<exists>pp. daily_at data ''precipitation_probability_max'' (k + 1) = Some pp \<and>
               rainChance (forecast p ! k) = js_or pp (Num (Fin 0))"
      using forecast_entry_rain [OF forecast_entry_at [OF b]] by blast
    then show ?thesis
      using data pp unfolding js_or_def by (metis (full_types))
  qed
  have lo: "low th = None \<or> (\<exists>n. low th = Some n \<and> \<not> truthy (Num n)) \<longrightarrow>
      lowThreshold (fetchCurrency_init th) = Fin (11 / 10)"
    by (auto simp: fetchCurrency_init_def or_default_def js_or_def)
  have hi: "high th = None \<or> (\<exists>n. high th = Some n \<and> \<not> truthy (Num n)) \<longrightarrow>
      highThreshold (fetchCurrency_init th) = Fin (12 / 10)"
    by (auto simp: fetchCurrency_init_def or_default_def js_or_def)
  show ?thesis
    using w lo hi by (simp add: fetchCurrency_def run_fields)
qed

theorem missing_fields_defaulted_witness:
  "fetchWeather example_host (WLoad 200 (Some weather_body)) = Success weather_shown \<and>
   daily_at weather_body ''precipitation_probability_max'' 0 = Some (Num (Fin 0)) \<and>
   rainChance (today weather_shown) = Num (Fin 0) \<and>
   daily_at weather_body ''precipitation_probability_max'' 1 = Some Null \<and>
   rainChance (forecast weather_shown ! 0) = Num (Fin 0) \<and>
   daily_at weather_body ''precipitation_probability_max'' 3 = Some Undefined \<and>
   rainChance (forecast weather_shown ! 2) = Num (Fin 0) \<and>
   lowThreshold (fetchCurrency_init no_thresholds) = Fin (11 / 10) \<and>
   highThreshold (fetchCurrency_init no_thresholds) = Fin (12 / 10)"
proof -
  have d: "daily_at weather_body ''precipitation_probability_max'' 0 = Some (Num (Fin 0))"
    "daily_at weather_body ''precipitation_probability_max'' 1 = Some Null"
    "daily_at weather_body ''precipitation_probability_max'' 3 = Some Undefined"
    by code_simp+
  have r: "rainChance (today weather_shown) = Num (Fin 0)"
    "rainChance (forecast weather_shown ! 0) = Num (Fin 0)"
    "rainChance (forecast weather_shown ! 2) = Num (Fin 0)"
    by (simp_all add: weather_shown_def)
  have t: "low no_thresholds = None" "high no_thresholds = None"
    by (simp_all add: no_thresholds_def)
  from missing_fields_defaulted
    [of example_host 200 "Some weather_body" weather_shown "[]" 0 no_thresholds example_host "[]"]
    weather_example d r t
  show ?thesis by simp
qed

subsection \<open>The status of a rate\<close>







subsection \<open>The relay\<close>

lemma allowedDomains_set:
  "set allowedDomains =
     {''api.open-meteo.com'', ''openexchangerates.org'', ''api.frankfurter.app'',
      ''api.exchangerate-api.com''}"
  "distinct allowedDomains" "length allowedDomains = 4"
  by (simp_all add: allowedDomains_def)

lemma route_missing:
  assumes "searchParams_get (searchParams req) ''url'' = None"
  shows "route_v1 w req = Reply (text_response ''Missing url parameter'' 400)"
    and "route_v2 w env req = Reply (text_response ''Missing url parameter'' 400)"
  using assms by (simp_all add: route_v1_def route_v2_def)

lemma route_refused:
  assumes "searchParams_get (searchParams req) ''url'' = Some t" and "t \<noteq> []"
    and "parseURL w t = Some u" and "hostname u \<notin> set allowedDomains"
  shows "route_v1 w req = Reply (text_response ''Domain not allowed'' 403)"
    and "route_v2 w env req = Reply (text_response ''Domain not allowed'' 403)"
  using assms by (simp_all add: route_v1_def route_v2_def)

lemma route_allowed:
  assumes "searchParams_get (searchParams req) ''url'' = Some t" and "t \<noteq> []"
    and "parseURL w t = Some u" and "hostname u \<in> set allowedDomains"
  shows "route_v1 w req = Forward t"
    and "route_v2 w env req = Forward (inject_key w env u t)"
  using assms by (simp_all add: route_v1_def route_v2_def)

lemma route_v1_Forward:
  assumes "route_v1 w req = Forward x"
  shows "\<exists>u. searchParams_get (searchParams req) ''url'' = Some x \<and> parseURL w x = Some u \<and>
           hostname u \<in> set allowedDomains"
  using assms by (auto simp: route_v1_def split: option.splits if_splits)

lemma route_v2_Forward:
  assumes "route_v2 w env req = Forward x"
  shows "\<exists>t u. searchParams_get (searchParams req) ''url'' = Some t \<and> parseURL w t = Some u \<and>
           hostname u \<in> set allowedDomains \<and> x = inject_key w env u t"
  using assms by (auto simp: route_v2_def split: option.splits if_splits)

lemma text_response_status: "resp_status (text_response b st) = st"
  by (simp add: text_response_def)

lemma example_routes:
  "searchParams_get (searchParams bare_request) ''url'' = None"
  "searchParams_get (searchParams (relay_request t)) ''url'' = Some t"
  "parseURL example_web ''https://example.org/'' = Some other_url"
  "parseURL example_web ''https://api.frankfurter.app/latest?from=EUR'' = Some ecb_url"
  "parseURL example_web ''http://api.open-meteo.com/v1/forecast?latitude=52&apikey=mine'' =
     Some meteo_url"
  "hostname other_url \<notin> set allowedDomains"
  "hostname ecb_url \<in> set allowedDomains"
  "hostname meteo_url \<in> set allowedDomains"
  by (simp_all add: bare_request_def relay_request_def searchParams_get_def example_web_def
      other_url_def ecb_url_def meteo_url_def allowedDomains_def)

text \<open>
  C5. The relay allows four hostnames. Both versions answer 400 to a request without a
  \<^verbatim>\<open>url\<close> parameter and 403 to a request whose \<^verbatim>\<open>url\<close> parameter parses to a hostname outside
  the list, in both cases without an outgoing request; and they forward only when the
  hostname of the \<^verbatim>\<open>url\<close> parameter is in the list.
\<close>

theorem relay_allow_list:
  "set allowedDomains =
     {''api.open-meteo.com'', ''openexchangerates.org'', ''api.frankfurter.app'',
      ''api.exchangerate-api.com''} \<and>
   distinct allowedDomains \<and> length allowedDomains = 4 \<and>
   (searchParams_get (searchParams req) ''url'' = None \<longrightarrow>
      map_option resp_status (fetch_v1 w req) = Some 400 \<and>
      map_option resp_status (fetch_v2 w env req) = Some 400 \<and>
      (\<forall>x. route_v1 w req \<noteq> Forward x \<and> route_v2 w env req \<noteq> Forward x)) \<and>
   (searchParams_get (searchParams req) ''url'' = Some t \<and> t \<noteq> [] \<and>
    parseURL w t = Some u \<and> hostname u \<notin> set allowedDomains \<longrightarrow>
      map_option resp_status (fetch_v1 w req) = Some 403 \<and>
      map_option resp_status (fetch_v2 w env req) = Some 403 \<and>
      (\<forall>x. route_v1 w req \<noteq> Forward x \<and> route_v2 w env req \<noteq> Forward x)) \<and>
   (route_v1 w req = Forward x \<longrightarrow>
      (\<exists>u'. searchParams_get (searchParams req) ''url'' = Some x \<and> parseURL w x = Some u' \<and>
            hostname u' \<in> set allowedDomains)) \<and>
   (route_v2 w env req = Forward x \<longrightarrow>
      (\<exists>t' u'. searchParams_get (searchParams req) ''url'' = Some t' \<and>
            parseURL w t' = Some u' \<and> hostname u' \<in> set allowedDomains))"
proof -
  have a: "map_option resp_status (fetch_v1 w req) = Some 400 \<and>
      map_option resp_status (fetch_v2 w env req) = Some 400 \<and>
      (\<forall>x. route_v1 w req \<noteq> Forward x \<and> route_v2 w env req \<noteq> Forward x)"
    if "searchParams_get (searchParams req) ''url'' = None"
    by (simp add: fetch_v1_def fetch_v2_def route_missing [OF that] text_response_status)
  have b: "map_option resp_status (fetch_v1 w req) = Some 403 \<and>
      map_option resp_status (fetch_v2 w env req) = Some 403 \<and>
      (\<forall>x. route_v1 w req \<noteq> Forward x \<and> route_v2 w env req \<noteq> Forward x)"
    if "searchParams_get (searchParams req) ''url'' = Some t" "t \<noteq> []"
      "parseURL w t = Some u" "hostname u \<notin> set allowedDomains"
    by (simp add: fetch_v1_def fetch_v2_def route_refused [OF that] text_response_status)
  have c: "\<exists>u'. searchParams_get (searchParams req) ''url'' = Some x \<and> parseURL w x = Some u' \<and>
            hostname u' \<in> set allowedDomains" if "route_v1 w req = Forward x"
    using route_v1_Forward [OF that] .
  have d: "\<exists>t' u'. searchParams_get (searchParams req) ''url'' = Some t' \<and>
            parseURL w t' = Some u' \<and> hostname u' \<in> set allowedDomains"
    if "route_v2 w env req = Forward x"
    using route_v2_Forward [OF that] by blast
  show ?thesis
    using allowedDomains_set a b c d by blast
qed

theorem relay_allow_list_witness:
  "map_option resp_status (fetch_v1 example_web bare_request) = Some 400 \<and>
   map_option resp_status (fetch_v2 example_web with_key bare_request) = Some 400 \<and>
   map_option resp_status (fetch_v1 example_web (relay_request ''https://example.org/'')) =
     Some 403 \<and>
   map_option resp_status
     (fetch_v2 example_web with_key (relay_request ''https://example.org/'')) = Some 403 \<and>
   route_v1 example_web (relay_request ''https://api.frankfurter.app/latest?from=EUR'') =
     Forward ''https://api.frankfurter.app/latest?from=EUR'' \<and>
   hostname ecb_url \<in> set allowedDomains"
proof -
  have f: "route_v1 example_web (relay_request ''https://api.frankfurter.app/latest?from=EUR'') =
     Forward ''https://api.frankfurter.app/latest?from=EUR''"
    by (rule route_allowed(1) [OF example_routes(2) _ example_routes(4) example_routes(7)]) simp
  from relay_allow_list [of bare_request example_web with_key "[]" other_url "[]"]
    relay_allow_list [of "relay_request ''https://example.org/''" example_web with_key
      "''https://example.org/''" other_url "[]"]
    relay_allow_list [of "relay_request ''https://api.frankfurter.app/latest?from=EUR''"
      example_web with_key "[]" other_url "''https://api.frankfurter.app/latest?from=EUR''"]
    example_routes f
  show ?thesis by simp
qed

lemma filter_takeWhile_same: "filter P (takeWhile P xs) = takeWhile P xs"
  by (induction xs) simp_all

lemma filter_takeWhile_not: "filter (\<lambda>x. \<not> P x) (takeWhile P xs) = []"
  by (induction xs) simp_all

lemma filter_split_first: "filter P xs = takeWhile P xs @ filter P (dropWhile P xs)"
  by (induction xs) simp_all

lemma filter_absent: "name \<notin> set (map fst ps) \<Longrightarrow> filter (\<lambda>p. fst p = name) ps = []"
  by (induction ps) auto

lemma searchParams_set_others:
  "filter (\<lambda>p. fst p \<noteq> name) (searchParams_set name v ps) = filter (\<lambda>p. fst p \<noteq> name) ps"
proof (cases "name \<in> set (map fst ps)")
  case True
  have "filter (\<lambda>p. fst p \<noteq> name) (searchParams_set name v ps) =
          takeWhile (\<lambda>p. fst p \<noteq> name) ps @
          filter (\<lambda>p. fst p \<noteq> name) (dropWhile (\<lambda>p. fst p \<noteq> name) ps)"
    using True by (simp add: searchParams_set_def filter_takeWhile_same)
  then show ?thesis
    using filter_split_first [of "\<lambda>p. fst p \<noteq> name" ps] by simp
next
  case False
  then show ?thesis
    by (simp add: searchParams_set_def)
qed

lemma searchParams_set_named:
  "filter (\<lambda>p. fst p = name) (searchParams_set name v ps) = [(name, v)]"
proof (cases "name \<in> set (map fst ps)")
  case True
  have "filter (\<lambda>p. fst p = name) (takeWhile (\<lambda>p. fst p \<noteq> name) ps) = []"
    using filter_takeWhile_not [of "\<lambda>p. fst p \<noteq> name" ps] by simp
  moreover have "filter (\<lambda>p. fst p = name)
          (filter (\<lambda>p. fst p \<noteq> name) (dropWhile (\<lambda>p. fst p \<noteq> name) ps)) = []"
    by (simp add: filter_empty_conv)
  ultimately show ?thesis
    using True by (simp add: searchParams_set_def)
next
  case False
  then show ?thesis
    using filter_absent [OF False] by (simp add: searchParams_set_def)
qed

lemma searchParams_set_fresh:
  "name \<notin> set (map fst ps) \<Longrightarrow> searchParams_set name v ps = ps @ [(name, v)]"
  by (simp add: searchParams_set_def)

lemma inject_key_cases:
  "hostname u = ''api.open-meteo.com'' \<Longrightarrow> OPENMETEO_API_KEY env = Some k \<Longrightarrow> k \<noteq> [] \<Longrightarrow>
     inject_key w env u t =
       urlToString w (u\<lparr>searchParams := searchParams_set ''apikey'' k (searchParams u)\<rparr>)"
  "hostname u \<noteq> ''api.open-meteo.com'' \<or> OPENMETEO_API_KEY env = None \<or>
   OPENMETEO_API_KEY env = Some [] \<Longrightarrow> inject_key w env u t = t"
  by (auto simp: inject_key_def)

text \<open>
  C6. The key goes to Open-Meteo only. When the target's hostname is \<^verbatim>\<open>api.open-meteo.com\<close>
  and the secret is configured, the address forwarded is the serialised target URL with
  \<^verbatim>\<open>apikey\<close> set to the secret: the other parameters are kept in their order, there is
  exactly one \<^verbatim>\<open>apikey\<close> parameter afterwards, and it is appended when the target had none
  (when it had one, that one is overwritten). For every other allowed hostname, and
  whenever the secret is absent or empty, the target is forwarded as it was received.
\<close>

theorem relay_key_injection:
  assumes "searchParams_get (searchParams req) ''url'' = Some t" and "t \<noteq> []"
    and "parseURL w t = Some u" and "hostname u \<in> set allowedDomains"
  shows "(hostname u = ''api.open-meteo.com'' \<and> OPENMETEO_API_KEY env = Some k \<and> k \<noteq> [] \<longrightarrow>
            route_v2 w env req =
              Forward (urlToString w
                (u\<lparr>searchParams := searchParams_set ''apikey'' k (searchParams u)\<rparr>)) \<and>
            filter (\<lambda>p. fst p \<noteq> ''apikey'') (searchParams_set ''apikey'' k (searchParams u)) =
              filter (\<lambda>p. fst p \<noteq> ''apikey'') (searchParams u) \<and>
            filter (\<lambda>p. fst p = ''apikey'') (searchParams_set ''apikey'' k (searchParams u)) =
              [(''apikey'', k)] \<and>
            (''apikey'' \<notin> set (map fst (searchParams u)) \<longrightarrow>
               searchParams_set ''apikey'' k (searchParams u) =
                 searchParams u @ [(''apikey'', k)])) \<and>
         (hostname u \<noteq> ''api.open-meteo.com'' \<or> OPENMETEO_API_KEY env = None \<or>
          OPENMETEO_API_KEY env = Some [] \<longrightarrow>
            route_v2 w env req = Forward t)"
proof -
  note r = route_allowed(2) [OF assms, of env]
  have a: "route_v2 w env req =
      Forward (urlToString w (u\<lparr>searchParams := searchParams_set ''apikey'' k (searchParams u)\<rparr>))"
    if "hostname u = ''api.open-meteo.com''" "OPENMETEO_API_KEY env = Some k" "k \<noteq> []"
    unfolding r inject_key_cases(1) [OF that] ..
  have b: "route_v2 w env req = Forward t"
    if "hostname u \<noteq> ''api.open-meteo.com'' \<or> OPENMETEO_API_KEY env = None \<or>
        OPENMETEO_API_KEY env = Some []"
    unfolding r inject_key_cases(2) [OF that] ..
  show ?thesis
    using a b searchParams_set_others [of "''apikey''" k "searchParams u"]
      searchParams_set_named [of "''apikey''" k "searchParams u"]
      searchParams_set_fresh [of "''apikey''" "searchParams u" k]
    by blast
qed


theorem relay_key_injection_witness:
  "route_v2 example_web with_key
     (relay_request ''http://api.open-meteo.com/v1/forecast?latitude=52&apikey=mine'') =
     Forward ''http://api.open-meteo.com/v1/forecast?latitude=52&apikey=secret'' \<and>
   route_v2 example_web without_key
     (relay_request ''http://api.open-meteo.com/v1/forecast?latitude=52&apikey=mine'') =
     Forward ''http://api.open-meteo.com/v1/forecast?latitude=52&apikey=mine'' \<and>
   route_v2 example_web with_key
     (relay_request ''https://api.frankfurter.app/latest?from=EUR'') =
     Forward ''https://api.frankfurter.app/latest?from=EUR''"
proof -
  have s: "urlToString example_web
      (meteo_url\<lparr>searchParams := searchParams_set ''apikey'' ''secret'' (searchParams meteo_url)\<rparr>) =
      ''http://api.open-meteo.com/v1/forecast?latitude=52&apikey=secret''"
    by code_simp
  have k: "OPENMETEO_API_KEY with_key = Some ''secret''" "OPENMETEO_API_KEY without_key = None"
    "hostname meteo_url = ''api.open-meteo.com''" "hostname ecb_url \<noteq> ''api.open-meteo.com''"
    by (simp_all add: with_key_def without_key_def meteo_url_def ecb_url_def)
  have n: "''http://api.open-meteo.com/v1/forecast?latitude=52&apikey=mine'' \<noteq> []"
    "''https://api.frankfurter.app/latest?from=EUR'' \<noteq> []" "''secret'' \<noteq> []"
    by simp_all
  note m = relay_key_injection [OF example_routes(2) n(1) example_routes(5) example_routes(8)]
  note e = relay_key_injection [OF example_routes(2) n(2) example_routes(4) example_routes(7)]
  have 1: "route_v2 example_web with_key
     (relay_request ''http://api.open-meteo.com/v1/forecast?latitude=52&apikey=mine'') =
     Forward ''http://api.open-meteo.com/v1/forecast?latitude=52&apikey=secret''"
    using m [of with_key "''secret''"] k(1,3) n(3) unfolding s by blast
  have 2: "route_v2 example_web without_key
     (relay_request ''http://api.open-meteo.com/v1/forecast?latitude=52&apikey=mine'') =
     Forward ''http://api.open-meteo.com/v1/forecast?latitude=52&apikey=mine''"
    using m [of without_key "''secret''"] k(2) by blast
  have 3: "route_v2 example_web with_key
     (relay_request ''https://api.frankfurter.app/latest?from=EUR'') =
     Forward ''https://api.frankfurter.app/latest?from=EUR''"
    using e [of with_key "''secret''"] k(4) by blast
  from 1 2 3 show ?thesis by blast
qed

text \<open>
  The claim as stated, that the address forwarded is the requested one with only an
  \<^verbatim>\<open>apikey\<close> parameter added, fails when the target already has an \<^verbatim>\<open>apikey\<close> parameter: the
  caller's value is replaced, and nothing is added.
\<close>

theorem key_added_counterexample:
  "route_v2 example_web with_key
     (relay_request ''http://api.open-meteo.com/v1/forecast?latitude=52&apikey=mine'') =
     Forward ''http://api.open-meteo.com/v1/forecast?latitude=52&apikey=secret'' \<and>
   urlToString example_web
     (meteo_url\<lparr>searchParams := searchParams meteo_url @ [(''apikey'', ''secret'')]\<rparr>) =
     ''http://api.open-meteo.com/v1/forecast?latitude=52&apikey=mine&apikey=secret'' \<and>
   searchParams_set ''apikey'' ''secret'' (searchParams meteo_url) =
     [(''latitude'', ''52''), (''apikey'', ''secret'')] \<and>
   searchParams meteo_url @ [(''apikey'', ''secret'')] =
     [(''latitude'', ''52''), (''apikey'', ''mine''), (''apikey'', ''secret'')]"
  by code_simp

end
